theory Spec2Isabelle
  imports Complex_Main
begin

section \<open>Python values, exceptions and paths\<close>

text \<open>
  The task \<open>InstanceAttributeRecognitionTask\<close> of \<open>seal/task/attribute_recognition.py\<close> is
  embedded with its exceptions as values.  An exception of an external collaborator
  (train step, evaluation object, torch) is whatever error the collaborator returns.
\<close>

datatype error =
    ValueError string
  | KeyError string
  | TypeError string
  | AttributeError string
  | UnboundLocalError string
  | FileNotFoundError string
  | UnpicklingError string
  | NotFoundError string
  | ExternalError string

text \<open>
  Configuration values as they come out of \<open>get_settings()\<close>.  A score returned by
  \<open>get_mAP()\<close> is a Python float; the model takes it as a real number, so that \<open>>\<close>
  is the order of the reals (a NaN score is outside the model).
\<close>

datatype pyval =
    PyNone
  | PyBool bool
  | PyInt int
  | PyFloat real
  | PyStr string
  | PyCallable string
  | PyDict "(string \<times> pyval) list"

type_synonym pydict = "(string \<times> pyval) list"

text \<open>\<open>d[k]\<close>: a missing key raises \<open>KeyError\<close>.\<close>

definition getitem :: "pydict \<Rightarrow> string \<Rightarrow> error + pyval" where
  "getitem d k = (case map_of d k of None \<Rightarrow> Inl (KeyError k) | Some v \<Rightarrow> Inr v)"

text \<open>
  \<open>os.path.join(a, b)\<close> of \<open>posixpath\<close> for two components: an absolute \<open>b\<close> replaces
  \<open>a\<close>; otherwise a separator is inserted unless \<open>a\<close> is empty or ends in one.
\<close>

definition path_join :: "string \<Rightarrow> string \<Rightarrow> string" where
  "path_join a b =
     (if take 1 b = ''/'' then b
      else if a = [] \<or> last a = CHR ''/'' then a @ b
      else a @ ''/'' @ b)"

text \<open>\<open>op.join(self.d_weight, weight_name)\<close>: a directory that is not a string raises \<open>TypeError\<close>.\<close>

definition op_join :: "pyval \<Rightarrow> string \<Rightarrow> error + string" where
  "op_join d b = (case d of PyStr a \<Rightarrow> Inr (path_join a b) | _ \<Rightarrow> Inl (TypeError ''join''))"

text \<open>\<open>range(n)\<close> for a value read from the settings.\<close>

definition py_range :: "pyval \<Rightarrow> error + nat list" where
  "py_range v =
     (case v of
        PyInt n \<Rightarrow> Inr [0 ..< nat n]
      | PyBool b \<Rightarrow> Inr [0 ..< (if b then 1 else 0)]
      | _ \<Rightarrow> Inl (TypeError ''range''))"

section \<open>The task and its collaborators\<close>

record setting =
  name :: string
  get_settings :: pydict

record pipeline =
  pl_name :: string
  pl_mode :: string
  pl_kwargs :: pydict

record dataset =
  ds_name :: string
  ds_mode :: string
  ds_transform :: pipeline
  ds_kwargs :: pydict

text \<open>
  A loader that \<open>DataLoader(**settings)\<close> has built, after \<open>settings.update({"dataset": ..,
  "batch_size": .., "collate_fn": ..})\<close>: the three updated keys are fields of their own,
  the per-split options are kept as they were read.  A \<open>collate_fn\<close> of \<open>None\<close> selects
  torch's default batcher.
\<close>

record loader =
  ld_dataset :: dataset
  ld_batch_size :: pyval
  ld_collate_fn :: pyval
  ld_options :: pydict

record evalobj =
  ev_name :: string
  ev_kwargs :: pydict

text \<open>
  What a task is constructed with (\<open>BaseTask\<close> sets these): the mode, the settings
  records, each with a \<open>name\<close> and \<open>get_settings()\<close>, and the device.  \<open>project\<close> is the
  class attribute.
\<close>

record config =
  mode :: string
  project :: string
  device :: string
  model_setting :: setting
  eval_settings :: setting
  task_settings :: setting
  train_settings :: setting
  pipeline_setting :: setting
  dataset_setting :: setting

definition project_default :: string where
  "project_default = ''InstanceAttributeRecognitionProject''"

text \<open>
  The attributes that \<open>prepare\<close> adds to \<open>self\<close>.  The transforms, datasets and loaders are
  set only in the branch of the mode: an attribute that was never set is \<open>None\<close> here and
  raises \<open>AttributeError\<close> when read.  The parameters of \<open>self.model\<close> change during a run
  and live in the world below.
\<close>

record task = config +
  evaluation :: evalobj
  d_weight :: pyval
  train_util :: string
  train_transforms :: "pipeline option"
  evalu_transforms :: "pipeline option"
  trainset :: "dataset option"
  valset :: "dataset option"
  testset :: "dataset option"
  trainloader :: "loader option"
  valloader :: "loader option"
  testloader :: "loader option"

definition attr :: "'a option \<Rightarrow> string \<Rightarrow> error + 'a" where
  "attr a n = (case a of None \<Rightarrow> Inl (AttributeError n) | Some v \<Rightarrow> Inr v)"

text \<open>A file under the weight directory: a serialized parameter state, or unreadable bytes.\<close>

datatype 'w ckfile = Checkpoint 'w | Corrupt

text \<open>What is passed to the evaluation object: the model (its parameters) or a loader.\<close>

datatype 'w arg = ModelArg 'w | LoaderArg loader

text \<open>
  What a run does that can be observed: printed lines, and the calls to the evaluation
  object and to \<open>torch.save\<close> / \<open>torch.load\<close>.  \<open>EvalCall m d\<close> records the values bound to
  the parameters \<open>model\<close> and \<open>dataloader\<close>.
\<close>

datatype 'w event =
    Print string
  | PrintKeys string "string list"
  | PrintDict string real
  | TrainUtil nat pyval
  | EvalCall "'w arg" "'w arg"
  | GetMAP
  | TorchSave string 'w
  | TorchLoad string string

datatype save_result = Saved | FailedUntouched | FailedPartial

text \<open>
  The external collaborators, taken as parameters: \<open>'w\<close> is a parameter state of the model,
  \<open>'o\<close> the state of the optimizer with its plateau scheduler.
  \<^item> \<open>get_optimizer\<close>: \<open>self.model.get_optimizer()\<close> wrapped by \<open>ReduceLROnPlateau\<close>;
  \<^item> \<open>run_train_util\<close>: the train step, called with model, loader, optimizer, epoch,
    total epochs, device and \<open>amp\<close>; it returns the trained parameters or raises;
  \<^item> \<open>run_evaluation\<close>: the evaluation object called with the values bound to \<open>model\<close> and
    \<open>dataloader\<close>; it computes the score that \<open>get_mAP()\<close> returns afterwards, or raises;
  \<^item> \<open>scheduler_step\<close>: \<open>scheduler.step(score)\<close>;
  \<^item> \<open>save_result\<close>: whether \<open>torch.save\<close> succeeds in a given epoch, fails before touching
    the file, or fails leaving unreadable bytes;
  \<^item> \<open>load_state_dict\<close>: \<open>self.model.load_state_dict(state_dict, strict)\<close>, which gives the
    parameters the model holds afterwards and either the missing and unexpected keys or
    the exception raised.
\<close>

record ('w, 'o) env =
  get_optimizer :: "'w \<Rightarrow> 'o"
  run_train_util :: "'w \<Rightarrow> loader \<Rightarrow> 'o \<Rightarrow> nat \<Rightarrow> pyval \<Rightarrow> string \<Rightarrow> pyval \<Rightarrow> error + 'w \<times> 'o"
  run_evaluation :: "'w arg \<Rightarrow> 'w arg \<Rightarrow> error + real"
  scheduler_step :: "real \<Rightarrow> 'o \<Rightarrow> 'o"
  save_result :: "nat \<Rightarrow> save_result"
  load_state_dict :: "bool \<Rightarrow> 'w \<Rightarrow> 'w \<Rightarrow> 'w \<times> (error + string list \<times> string list)"

text \<open>
  The mutable world: the parameters of \<open>self.model\<close>, the score held by the evaluation
  object, the files, and what was observed so far.
\<close>

record 'w world =
  model :: 'w
  ev_score :: "real option"
  fs :: "string \<rightharpoonup> 'w ckfile"
  out :: "'w event list"

text \<open>The locals of \<open>train()\<close>; \<open>mAP\<close> is unbound until the first epoch assigns it.\<close>

record 'o locals =
  optimizer :: 'o
  highest_mAP :: real
  mAP :: "real option"

definition emit :: "'w event \<Rightarrow> 'w world \<Rightarrow> 'w world" where
  "emit e s = s\<lparr>out := out s @ [e]\<rparr>"

text \<open>\<open>self.evaluation(model=m, dataloader=d)\<close>.\<close>

definition call_evaluation ::
  "('w, 'o) env \<Rightarrow> 'w arg \<Rightarrow> 'w arg \<Rightarrow> 'w world \<Rightarrow> error \<times> 'w world + 'w world" where
  "call_evaluation env m d s =
     (let s1 = emit (EvalCall m d) s in
      case run_evaluation env m d of
        Inl e \<Rightarrow> Inl (e, s1)
      | Inr score \<Rightarrow> Inr (s1\<lparr>ev_score := Some score\<rparr>))"

text \<open>\<open>self.evaluation.get_mAP()\<close>.\<close>

definition get_mAP :: "'w world \<Rightarrow> error \<times> 'w world + real \<times> 'w world" where
  "get_mAP s =
     (let s1 = emit GetMAP s in
      case ev_score s1 of
        None \<Rightarrow> Inl (AttributeError ''mAP'', s1)
      | Some v \<Rightarrow> Inr (v, s1))"

text \<open>\<open>torch.save(state_dict, path)\<close> in epoch \<open>epoch\<close>.\<close>

definition torch_save ::
  "('w, 'o) env \<Rightarrow> nat \<Rightarrow> 'w \<Rightarrow> string \<Rightarrow> 'w world \<Rightarrow> error \<times> 'w world + 'w world" where
  "torch_save env epoch sd path s =
     (let s1 = emit (TorchSave path sd) s in
      case save_result env epoch of
        Saved \<Rightarrow> Inr (s1\<lparr>fs := (fs s1)(path \<mapsto> Checkpoint sd)\<rparr>)
      | FailedUntouched \<Rightarrow> Inl (ExternalError ''save'', s1)
      | FailedPartial \<Rightarrow> Inl (ExternalError ''save'', s1\<lparr>fs := (fs s1)(path \<mapsto> Corrupt)\<rparr>))"

text \<open>\<open>torch.load(path, map_location=loc)\<close>.\<close>

definition torch_load ::
  "string \<Rightarrow> string \<Rightarrow> 'w world \<Rightarrow> error \<times> 'w world + 'w \<times> 'w world" where
  "torch_load path loc s =
     (let s1 = emit (TorchLoad path loc) s in
      case fs s1 path of
        None \<Rightarrow> Inl (FileNotFoundError path, s1)
      | Some Corrupt \<Rightarrow> Inl (UnpicklingError path, s1)
      | Some (Checkpoint sd) \<Rightarrow> Inr (sd, s1))"

section \<open>\<open>train()\<close>\<close>

text \<open>
  Lines 135 to 139: the \<open>try\<close> around the save.  The bare \<open>except\<close> catches whatever the
  body raises and prints one line.
\<close>

definition save_highest ::
  "('w, 'o) env \<Rightarrow> ('z task_scheme) \<Rightarrow> nat \<Rightarrow> 'w world \<Rightarrow> 'w world" where
  "save_highest env t epoch s =
     (let weight_name = project t @ ''-model-highest.pth'' in
      case op_join (d_weight t) weight_name of
        Inl e \<Rightarrow> emit (Print ''Save Model Weight Failed!'') s
      | Inr path \<Rightarrow>
          (case torch_save env epoch (model s) path s of
             Inl (e, s1) \<Rightarrow> emit (Print ''Save Model Weight Failed!'') s1
           | Inr s1 \<Rightarrow> s1))"

text \<open>Lines 127 to 139: the body of the loop, for one value of \<open>epoch\<close>.\<close>

definition train_epoch ::
  "('w, 'o) env \<Rightarrow> ('z task_scheme) \<Rightarrow> nat \<Rightarrow> 'w world \<times> 'o locals
     \<Rightarrow> error \<times> 'w world \<times> 'o locals + 'w world \<times> 'o locals" where
  "train_epoch env t epoch = (\<lambda>(s, l).
     case attr (trainloader t) ''trainloader'' of
       Inl e \<Rightarrow> Inl (e, s, l)
     | Inr dl \<Rightarrow>
     (case getitem (get_settings (train_settings t)) ''epochs'' of
       Inl e \<Rightarrow> Inl (e, s, l)
     | Inr n \<Rightarrow>
     (case getitem (get_settings (train_settings t)) ''amp'' of
       Inl e \<Rightarrow> Inl (e, s, l)
     | Inr amp \<Rightarrow>
     (case run_train_util env (model s) dl (optimizer l) epoch n (device t) amp of
       Inl e \<Rightarrow> Inl (e, emit (TrainUtil epoch n) s, l)
     | Inr (w, opt) \<Rightarrow>
     (let s1 = (emit (TrainUtil epoch n) s)\<lparr>model := w\<rparr>;
          l1 = l\<lparr>optimizer := opt\<rparr> in
      case attr (valloader t) ''valloader'' of
        Inl e \<Rightarrow> Inl (e, s1, l1)
      | Inr vl \<Rightarrow>
      (case call_evaluation env (ModelArg (model s1)) (LoaderArg vl) s1 of
        Inl (e, s2) \<Rightarrow> Inl (e, s2, l1)
      | Inr s2 \<Rightarrow>
      (case get_mAP s2 of
        Inl (e, s3) \<Rightarrow> Inl (e, s3, l1)
      | Inr (v, s3) \<Rightarrow>
      (let l2 = l1\<lparr>mAP := Some v\<rparr>;
           l3 = l2\<lparr>optimizer := scheduler_step env v (optimizer l2)\<rparr> in
       if v > highest_mAP l3
       then Inr (save_highest env t epoch s3, l3\<lparr>highest_mAP := v\<rparr>)
       else Inr (s3, l3)))))))))"

text \<open>Line 126: the loop over \<open>range(epochs)\<close>; an exception in an epoch ends it.\<close>

fun train_loop ::
  "('w, 'o) env \<Rightarrow> ('z task_scheme) \<Rightarrow> nat list \<Rightarrow> 'w world \<times> 'o locals
     \<Rightarrow> error \<times> 'w world \<times> 'o locals + 'w world \<times> 'o locals" where
  "train_loop env t [] st = Inr st"
| "train_loop env t (epoch # es) st =
     (case train_epoch env t epoch st of
        Inl x \<Rightarrow> Inl x
      | Inr st' \<Rightarrow> train_loop env t es st')"

text \<open>Lines 141 to 150: what follows the loop, with the locals the loop left.\<close>

definition train_finish ::
  "('w, 'o) env \<Rightarrow> ('z task_scheme) \<Rightarrow> 'w world \<times> 'o locals \<Rightarrow> error \<times> 'w world + 'w world" where
  "train_finish env t = (\<lambda>(s1, l1).
     let s2 = emit (Print ''Testing the model of highest validation mAP.'')
                (emit (Print ''Finish Train'') s1);
         weight_name = project t @ ''-model-highest.pth'' in
     case op_join (d_weight t) weight_name of
       Inl e \<Rightarrow> Inl (e, s2)
     | Inr path \<Rightarrow>
     (case torch_load path (device t) s2 of
       Inl x \<Rightarrow> Inl x
     | Inr (state_dict, s3) \<Rightarrow>
     (case load_state_dict env True (model s3) state_dict of
       (w, r) \<Rightarrow>
     (let s4 = s3\<lparr>model := w\<rparr> in
      case r of
        Inl e \<Rightarrow> Inl (e, s4)
      | Inr keys \<Rightarrow>
      (case attr (testloader t) ''testloader'' of
        Inl e \<Rightarrow> Inl (e, s4)
      | Inr dl \<Rightarrow>
      (case call_evaluation env (ModelArg (model s4)) (LoaderArg dl) s4 of
        Inl x \<Rightarrow> Inl x
      | Inr s5 \<Rightarrow>
      (case mAP l1 of
        None \<Rightarrow> Inl (UnboundLocalError ''mAP'', s5)
      | Some v \<Rightarrow>
          Inr (emit (PrintDict ''test_mAP'' v) (emit (Print ''Finish Test'') s5)))))))))"

text \<open>Lines 120 to 126: the optimizer, \<open>highest_mAP = 0.\<close>, and the range of the loop.\<close>

definition train_init :: "('w, 'o) env \<Rightarrow> 'w world \<Rightarrow> 'o locals" where
  "train_init env s = \<lparr>optimizer = get_optimizer env (model s), highest_mAP = 0, mAP = None\<rparr>"

definition train ::
  "('w, 'o) env \<Rightarrow> ('z task_scheme) \<Rightarrow> 'w world \<Rightarrow> error \<times> 'w world + 'w world" where
  "train env t s =
     (case getitem (get_settings (train_settings t)) ''epochs'' of
        Inl e \<Rightarrow> Inl (e, s)
      | Inr n \<Rightarrow>
      (case py_range n of
        Inl e \<Rightarrow> Inl (e, s)
      | Inr es \<Rightarrow>
      (case train_loop env t es (s, train_init env s) of
        Inl (e, s1, l1) \<Rightarrow> Inl (e, s1)
      | Inr st \<Rightarrow> train_finish env t st)))"

section \<open>\<open>eval()\<close>\<close>

text \<open>Lines 156 to 163: the body of the \<open>try\<close>.\<close>

definition load_pretrained ::
  "('w, 'o) env \<Rightarrow> ('z task_scheme) \<Rightarrow> 'w world \<Rightarrow> error \<times> 'w world + 'w world" where
  "load_pretrained env t s =
     (let weight_name = project t @ ''-model-highest.pth'';
          s1 = emit (Print (''Loading pretrained weight: '' @ weight_name)) s in
      case op_join (d_weight t) weight_name of
        Inl e \<Rightarrow> Inl (e, s1)
      | Inr path \<Rightarrow>
      (case torch_load path ''cpu'' s1 of
        Inl x \<Rightarrow> Inl x
      | Inr (state_dict, s2) \<Rightarrow>
      (case load_state_dict env False (model s2) state_dict of
        (w, r) \<Rightarrow>
      (let s3 = s2\<lparr>model := w\<rparr> in
       case r of
         Inl e \<Rightarrow> Inl (e, s3)
       | Inr (missing_keys, unexpected_keys) \<Rightarrow>
           Inr (emit (Print ''Finish ...'')
                 (emit (PrintKeys ''Unexpected keys: '' unexpected_keys)
                   (emit (PrintKeys ''Missing keys: '' missing_keys) s3)))))))"

text \<open>
  Lines 153 to 169.  The call of line 169 is positional, \<open>self.evaluation(self.testloader,
  self.model)\<close>: its first argument is the loader.

  Modelled from the spec: the signature of the evaluation object, which is not in this
  file: "callable with \<open>(model, dataloader)\<close>", so that the first positional argument is
  bound to \<open>model\<close> and the second to \<open>dataloader\<close>.
\<close>

definition eval_task ::
  "('w, 'o) env \<Rightarrow> ('z task_scheme) \<Rightarrow> 'w world \<Rightarrow> error \<times> 'w world + 'w world" where
  "eval_task env t s =
     (let s1 = (case load_pretrained env t s of
                  Inl (e, s') \<Rightarrow> emit (Print ''Cannot find the weight! Using Initialized Weight'') s'
                | Inr s' \<Rightarrow> s');
          s2 = emit (Print ''Testing the model of highest validation mAP.'') s1 in
      case attr (testloader t) ''testloader'' of
        Inl e \<Rightarrow> Inl (e, s2)
      | Inr dl \<Rightarrow> call_evaluation env (LoaderArg dl) (ModelArg (model s2)) s2)"

section \<open>\<open>prepare()\<close>\<close>

text \<open>
  Modelled from the spec: the builder factories \<open>build_model\<close>, \<open>build_pipeline\<close>,
  \<open>build_dataset\<close>, \<open>build_evaluation\<close> and \<open>build_train_util\<close>, which are imported and not in
  this file: each "resolves a string name to a constructible implementation" and "fails
  with a not-found error if the name is unregistered".  A registry says which names are
  registered; a model class gives initial parameters from its keyword settings, the other
  implementations are records of what they were constructed with.  \<open>dataset_collate_fn\<close> is
  the read of the attribute \<open>collate_fn\<close> of a dataset, which raises when the dataset class
  has none.  \<open>loader_error\<close> is the check that torch's \<open>DataLoader\<close> makes of its arguments
  when it is constructed, the options of the split, the dataset and the batch size: the
  exception it raises (a \<open>ValueError\<close> for a batch size of 0, a \<open>TypeError\<close> for an unknown
  option), if any.  The collation function is not looked at before the first batch.
\<close>

record 'w registry =
  reg_model :: "string \<Rightarrow> (pydict \<Rightarrow> 'w) option"
  reg_evaluation :: "string \<Rightarrow> bool"
  reg_train_util :: "string \<Rightarrow> bool"
  reg_pipeline :: "string \<Rightarrow> bool"
  reg_dataset :: "string \<Rightarrow> bool"
  dataset_collate_fn :: "dataset \<Rightarrow> error + pyval"
  loader_error :: "pydict \<Rightarrow> dataset \<Rightarrow> pyval \<Rightarrow> error option"

definition build_model :: "'w registry \<Rightarrow> string \<Rightarrow> error + (pydict \<Rightarrow> 'w)" where
  "build_model reg n =
     (case reg_model reg n of None \<Rightarrow> Inl (NotFoundError n) | Some mk \<Rightarrow> Inr mk)"

definition build_evaluation :: "'w registry \<Rightarrow> string \<Rightarrow> error + (pydict \<Rightarrow> evalobj)" where
  "build_evaluation reg n =
     (if reg_evaluation reg n then Inr (\<lambda>kw. \<lparr>ev_name = n, ev_kwargs = kw\<rparr>)
      else Inl (NotFoundError n))"

definition build_train_util :: "'w registry \<Rightarrow> string \<Rightarrow> error + string" where
  "build_train_util reg n = (if reg_train_util reg n then Inr n else Inl (NotFoundError n))"

definition build_pipeline ::
  "'w registry \<Rightarrow> string \<Rightarrow> error + (string \<Rightarrow> pydict \<Rightarrow> pipeline)" where
  "build_pipeline reg n =
     (if reg_pipeline reg n
      then Inr (\<lambda>m kw. \<lparr>pl_name = n, pl_mode = m, pl_kwargs = kw\<rparr>)
      else Inl (NotFoundError n))"

definition build_dataset ::
  "'w registry \<Rightarrow> string \<Rightarrow> error + (string \<Rightarrow> pipeline \<Rightarrow> pydict \<Rightarrow> dataset)" where
  "build_dataset reg n =
     (if reg_dataset reg n
      then Inr (\<lambda>m tr kw. \<lparr>ds_name = n, ds_mode = m, ds_transform = tr, ds_kwargs = kw\<rparr>)
      else Inl (NotFoundError n))"

text \<open>
  Lines 48 to 55 and 98 to 105: the \<open>try\<close> around the read of \<open>collate_fn\<close>, with the line
  it prints.
\<close>

definition try_collate_fn :: "'w registry \<Rightarrow> dataset \<Rightarrow> pyval \<times> string" where
  "try_collate_fn reg ds =
     (case dataset_collate_fn reg ds of
        Inl e \<Rightarrow> (PyNone, ''Using dataloader default collate function'')
      | Inr f \<Rightarrow> (f, ''Using dataset collate function''))"

text \<open>
  Lines 59 to 67, 69 to 77, 79 to 87 and 107 to 115: the options of one split are read from
  the dataset settings, updated with the dataset, the batch size and the collation
  function, and passed to \<open>DataLoader\<close>.
\<close>

definition DataLoader ::
  "'w registry \<Rightarrow> pydict \<Rightarrow> dataset \<Rightarrow> pyval \<Rightarrow> pyval \<Rightarrow> error + loader" where
  "DataLoader reg opts ds bs cf =
     (case loader_error reg opts ds bs of
        Some e \<Rightarrow> Inl e
      | None \<Rightarrow>
          Inr \<lparr>ld_dataset = ds, ld_batch_size = bs, ld_collate_fn = cf, ld_options = opts\<rparr>)"

definition split_loader ::
  "'w registry \<Rightarrow> pydict \<Rightarrow> string \<Rightarrow> dataset \<Rightarrow> pyval \<Rightarrow> pyval \<Rightarrow> error + loader" where
  "split_loader reg kw key ds bs cf =
     (case getitem kw key of
        Inl e \<Rightarrow> Inl e
      | Inr (PyDict opts) \<Rightarrow> DataLoader reg opts ds bs cf
      | Inr _ \<Rightarrow> Inl (AttributeError ''update''))"

text \<open>Lines 26 to 29: what both modes build.\<close>

definition prepare_common ::
  "'w registry \<Rightarrow> config \<Rightarrow> error + 'w \<times> evalobj \<times> pyval \<times> string" where
  "prepare_common reg c =
     (case build_model reg (name (model_setting c)) of
        Inl e \<Rightarrow> Inl e
      | Inr mk_model \<Rightarrow>
      (case build_evaluation reg (name (eval_settings c)) of
        Inl e \<Rightarrow> Inl e
      | Inr mk_eval \<Rightarrow>
      (case getitem (get_settings (task_settings c)) ''d_weight'' of
        Inl e \<Rightarrow> Inl e
      | Inr dw \<Rightarrow>
      (case build_train_util reg (name (train_settings c)) of
        Inl e \<Rightarrow> Inl e
      | Inr tu \<Rightarrow>
          Inr (mk_model (get_settings (model_setting c)),
               mk_eval (get_settings (eval_settings c)), dw, tu)))))"

text \<open>Lines 33 to 87: the branch of \<open>mode == "train"\<close>.\<close>

definition prepare_train ::
  "'w registry \<Rightarrow> config \<Rightarrow> evalobj \<times> pyval \<times> string \<Rightarrow> error \<times> string list + task \<times> string list" where
  "prepare_train reg c = (\<lambda>(ev, dw, tu).
     case build_pipeline reg (name (pipeline_setting c)) of
       Inl e \<Rightarrow> Inl (e, [])
     | Inr mk_pipe \<Rightarrow>
     (let train_tr = mk_pipe ''train'' (get_settings (pipeline_setting c));
          evalu_tr = mk_pipe ''evalu'' (get_settings (pipeline_setting c)) in
      case build_dataset reg (name (dataset_setting c)) of
        Inl e \<Rightarrow> Inl (e, [])
      | Inr mk_ds \<Rightarrow>
      (let ds_train = mk_ds ''train'' train_tr (get_settings (dataset_setting c));
           ds_val = mk_ds ''val'' evalu_tr (get_settings (dataset_setting c));
           ds_test = mk_ds ''test'' evalu_tr (get_settings (dataset_setting c));
           (collate_fn, line) = try_collate_fn reg ds_train in
       case getitem (get_settings (train_settings c)) ''batch_size'' of
         Inl e \<Rightarrow> Inl (e, [line])
       | Inr batch_size \<Rightarrow>
       (case split_loader reg (get_settings (dataset_setting c)) ''trainloader''
               ds_train batch_size collate_fn of
         Inl e \<Rightarrow> Inl (e, [line])
       | Inr l_train \<Rightarrow>
       (case split_loader reg (get_settings (dataset_setting c)) ''valloader''
               ds_val batch_size collate_fn of
         Inl e \<Rightarrow> Inl (e, [line])
       | Inr l_val \<Rightarrow>
       (case split_loader reg (get_settings (dataset_setting c)) ''testloader''
               ds_test batch_size collate_fn of
         Inl e \<Rightarrow> Inl (e, [line])
       | Inr l_test \<Rightarrow>
           Inr (config.extend c
                  (task.fields ev dw tu (Some train_tr) (Some evalu_tr)
                     (Some ds_train) (Some ds_val) (Some ds_test)
                     (Some l_train) (Some l_val) (Some l_test)),
                [line])))))))"

text \<open>Lines 91 to 115: the other branch.\<close>

definition prepare_test ::
  "'w registry \<Rightarrow> config \<Rightarrow> evalobj \<times> pyval \<times> string \<Rightarrow> error \<times> string list + task \<times> string list" where
  "prepare_test reg c = (\<lambda>(ev, dw, tu).
     case getitem (get_settings (eval_settings c)) ''batch_size'' of
       Inl e \<Rightarrow> Inl (e, [])
     | Inr batch_size \<Rightarrow>
     (case build_pipeline reg (name (pipeline_setting c)) of
       Inl e \<Rightarrow> Inl (e, [])
     | Inr mk_pipe \<Rightarrow>
     (let evalu_tr = mk_pipe ''evalu'' (get_settings (pipeline_setting c)) in
      case build_dataset reg (name (dataset_setting c)) of
        Inl e \<Rightarrow> Inl (e, [])
      | Inr mk_ds \<Rightarrow>
      (let ds_test = mk_ds ''test'' evalu_tr (get_settings (dataset_setting c));
           (collate_fn, line) = try_collate_fn reg ds_test in
       case split_loader reg (get_settings (dataset_setting c)) ''testloader''
              ds_test batch_size collate_fn of
         Inl e \<Rightarrow> Inl (e, [line])
       | Inr l_test \<Rightarrow>
           Inr (config.extend c
                  (task.fields ev dw tu None (Some evalu_tr)
                     None None (Some ds_test)
                     None None (Some l_test)),
                [line])))))"

text \<open>
  Lines 26 to 115: all that follows the check of the mode.  The result is the task with its
  new attributes, the initial parameters of the model and the lines printed, or the
  exception with the lines printed before it.
\<close>

definition prepare_body ::
  "'w registry \<Rightarrow> config \<Rightarrow> error \<times> string list + (task \<times> 'w) \<times> string list" where
  "prepare_body reg c =
     (case prepare_common reg c of
        Inl e \<Rightarrow> Inl (e, [])
      | Inr (w, rest) \<Rightarrow>
        (case (if mode c = ''train'' then prepare_train reg c rest
               else prepare_test reg c rest) of
           Inl x \<Rightarrow> Inl x
         | Inr (t, lines) \<Rightarrow> Inr ((t, w), lines)))"

text \<open>Lines 21 to 115: the check of the mode, lines 23 and 24, and the rest.\<close>

definition prepare ::
  "'w registry \<Rightarrow> config \<Rightarrow> error \<times> string list + (task \<times> 'w) \<times> string list" where
  "prepare reg c =
     (if mode c \<notin> set [''train'', ''test'']
      then Inl (ValueError ''The InstanceAttributeRecognitionTask's mode must be train or eval'', [])
      else prepare_body reg c)"

text \<open>Lines 173 to 177.\<close>

definition run ::
  "('w, 'o) env \<Rightarrow> ('z task_scheme) \<Rightarrow> 'w world \<Rightarrow> error \<times> 'w world + 'w world" where
  "run env t s = (if mode t = ''train'' then train env t s else eval_task env t s)"

section \<open>Observations of a run\<close>

text \<open>The world in which a call ended, whether it returned or raised.\<close>

definition final_world :: "error \<times> 'w world + 'w world \<Rightarrow> 'w world" where
  "final_world r = (case r of Inl (e, s) \<Rightarrow> s | Inr s \<Rightarrow> s)"

text \<open>The paths given to \<open>torch.save\<close> and \<open>torch.load\<close>, in the order of the calls.\<close>

fun paths_of :: "'w event list \<Rightarrow> string list" where
  "paths_of [] = []"
| "paths_of (TorchSave p w # evs) = p # paths_of evs"
| "paths_of (TorchLoad p loc # evs) = p # paths_of evs"
| "paths_of (ev # evs) = paths_of evs"

text \<open>The calls of \<open>torch.save\<close>: the path and the parameters written.\<close>

fun saves_of :: "'w event list \<Rightarrow> (string \<times> 'w) list" where
  "saves_of [] = []"
| "saves_of (TorchSave p w # evs) = (p, w) # saves_of evs"
| "saves_of (ev # evs) = saves_of evs"

text \<open>The values printed under the key \<open>test_mAP\<close>.\<close>

fun reported :: "'w event list \<Rightarrow> real list" where
  "reported [] = []"
| "reported (PrintDict k v # evs) = (if k = ''test_mAP'' then v # reported evs else reported evs)"
| "reported (ev # evs) = reported evs"

text \<open>The loaders and the transform pipelines a task holds after \<open>prepare\<close>.\<close>

definition loaders :: "'z task_scheme \<Rightarrow> loader list" where
  "loaders t = List.map_filter id [trainloader t, valloader t, testloader t]"

definition pipelines :: "'z task_scheme \<Rightarrow> pipeline list" where
  "pipelines t = List.map_filter id [train_transforms t, evalu_transforms t]"

text \<open>
  The states at the end of each completed epoch of the loop, in order: the world and the
  locals that the next epoch starts from.
\<close>

fun train_states ::
  "('w, 'o) env \<Rightarrow> ('z task_scheme) \<Rightarrow> nat list \<Rightarrow> 'w world \<times> 'o locals
     \<Rightarrow> ('w world \<times> 'o locals) list" where
  "train_states env t [] st = []"
| "train_states env t (epoch # es) st =
     (case train_epoch env t epoch st of
        Inl x \<Rightarrow> []
      | Inr st' \<Rightarrow> st' # train_states env t es st')"

text \<open>The validation score that an epoch left in \<open>mAP\<close>.\<close>

definition val_mAP :: "'w world \<times> 'o locals \<Rightarrow> real" where
  "val_mAP st = (case mAP (snd st) of None \<Rightarrow> 0 | Some v \<Rightarrow> v)"

text \<open>
  What the rest of a run can see of the loop apart from the files and the observations:
  the exception if any, the parameters of the model, the score the evaluation object
  holds, and the locals.
\<close>

definition loop_view ::
  "error \<times> 'w world \<times> 'o locals + 'w world \<times> 'o locals
     \<Rightarrow> error \<times> 'w \<times> real option \<times> 'o locals + 'w \<times> real option \<times> 'o locals" where
  "loop_view r =
     (case r of
        Inl (e, s, l) \<Rightarrow> Inl (e, model s, ev_score s, l)
      | Inr (s, l) \<Rightarrow> Inr (model s, ev_score s, l))"

text \<open>The world of an epoch after the train step, the evaluation and \<open>get_mAP()\<close>.\<close>

definition after_eval :: "'w world \<Rightarrow> 'w \<Rightarrow> real \<Rightarrow> 'w event list \<Rightarrow> 'w world" where
  "after_eval s w v evs = s\<lparr>model := w, ev_score := Some v, out := out s @ evs\<rparr>"

text \<open>Every path in the events is the joined checkpoint path of the task.\<close>

definition joined :: "'z task_scheme \<Rightarrow> 'w event list \<Rightarrow> bool" where
  "joined t evs =
     list_all (\<lambda>p. op_join (d_weight t) (project t @ ''-model-highest.pth'') = Inr p)
       (paths_of evs)"

text \<open>A file that \<open>torch.load\<close> cannot read back: absent or unreadable.\<close>

definition unloadable :: "(string \<rightharpoonup> 'w ckfile) \<Rightarrow> string \<Rightarrow> bool" where
  "unloadable files p = (case files p of None \<Rightarrow> True | Some Corrupt \<Rightarrow> True | Some (Checkpoint sd) \<Rightarrow> False)"



text \<open>
  The score at position \<open>k\<close> is strictly greater than \<open>h\<close> and than every score before it.
\<close>

definition improves :: "real \<Rightarrow> real list \<Rightarrow> nat \<Rightarrow> bool" where
  "improves h ms k = list_all (\<lambda>m. m < ms ! k) (h # take k ms)"

section \<open>A concrete task\<close>

text \<open>
  A small instance for evaluating the definitions: parameters are the number of train
  steps taken, the train step always succeeds, the validation score is a function of the
  parameters, the test score is \<open>9/10\<close>, and an evaluation object called with anything but
  a model and a loader, in this order, raises.
\<close>

definition demo_setting :: "pydict \<Rightarrow> setting" where
  "demo_setting kw = \<lparr>name = ''demo'', get_settings = kw\<rparr>"

definition demo_config :: "string \<Rightarrow> pyval \<Rightarrow> int \<Rightarrow> config" where
  "demo_config m dw n =
     \<lparr>mode = m, project = project_default, device = ''cuda'',
      model_setting = demo_setting [],
      eval_settings = demo_setting [(''batch_size'', PyInt 4)],
      task_settings = demo_setting [(''d_weight'', dw)],
      train_settings = demo_setting
        [(''epochs'', PyInt n), (''batch_size'', PyInt 8), (''amp'', PyBool False)],
      pipeline_setting = demo_setting [],
      dataset_setting = demo_setting
        [(''trainloader'', PyDict [(''shuffle'', PyBool True)]),
         (''valloader'', PyDict []), (''testloader'', PyDict [])]\<rparr>"

definition demo_registry :: "(dataset \<Rightarrow> error + pyval) \<Rightarrow> nat registry" where
  "demo_registry cf =
     \<lparr>reg_model = (\<lambda>n. if n = ''demo'' then Some (\<lambda>kw. 0) else None),
      reg_evaluation = (\<lambda>n. n = ''demo''), reg_train_util = (\<lambda>n. n = ''demo''),
      reg_pipeline = (\<lambda>n. n = ''demo''), reg_dataset = (\<lambda>n. n = ''demo''),
      dataset_collate_fn = cf, loader_error = (\<lambda>opts ds bs. None)\<rparr>"

definition no_collate_fn :: "dataset \<Rightarrow> error + pyval" where
  "no_collate_fn ds = Inl (AttributeError ''collate_fn'')"

definition demo_loader :: "string \<Rightarrow> string \<Rightarrow> loader" where
  "demo_loader m tr =
     \<lparr>ld_dataset = \<lparr>ds_name = ''demo'', ds_mode = m,
                    ds_transform = \<lparr>pl_name = ''demo'', pl_mode = tr, pl_kwargs = []\<rparr>,
                    ds_kwargs = []\<rparr>,
      ld_batch_size = PyInt 8, ld_collate_fn = PyNone, ld_options = []\<rparr>"

definition demo_task :: "pyval \<Rightarrow> int \<Rightarrow> task" where
  "demo_task dw n =
     config.extend (demo_config ''train'' dw n)
       (task.fields \<lparr>ev_name = ''demo'', ev_kwargs = []\<rparr> dw ''demo''
          None None None None None
          (Some (demo_loader ''train'' ''train'')) (Some (demo_loader ''val'' ''evalu''))
          (Some (demo_loader ''test'' ''evalu'')))"

definition demo_env :: "(nat \<Rightarrow> real) \<Rightarrow> (nat \<Rightarrow> save_result) \<Rightarrow> (nat, unit) env" where
  "demo_env val_score sv =
     \<lparr>get_optimizer = (\<lambda>w. ()),
      run_train_util = (\<lambda>w dl opt epoch n dev amp. Inr (Suc w, opt)),
      run_evaluation = (\<lambda>m d. case (m, d) of
          (ModelArg w, LoaderArg l) \<Rightarrow>
            Inr (if ds_mode (ld_dataset l) = ''val'' then val_score w else 9 / 10)
        | _ \<Rightarrow> Inl (TypeError ''evaluation'')),
      scheduler_step = (\<lambda>v opt. opt),
      save_result = sv,
      load_state_dict = (\<lambda>strict w sd. (sd, Inr ([], [])))\<rparr>"

definition demo_world :: "(string \<rightharpoonup> nat ckfile) \<Rightarrow> nat world" where
  "demo_world files = \<lparr>model = 0, ev_score = None, fs = files, out = []\<rparr>"

text \<open>The validation scores \<open>0.5, 0.7, 0.6\<close> of three epochs.\<close>

definition scores3 :: "nat \<Rightarrow> real" where
  "scores3 w = (if w = 1 then 5 / 10 else if w = 2 then 7 / 10 else 6 / 10)"

definition demo_path :: string where
  "demo_path = ''w/InstanceAttributeRecognitionProject-model-highest.pth''"

text \<open>Only the training set has a collation function.\<close>

definition train_collate_only :: "dataset \<Rightarrow> error + pyval" where
  "train_collate_only ds =
     (if ds_mode ds = ''train'' then Inr (PyCallable ''collate'')
      else Inl (AttributeError ''collate_fn''))"

section \<open>Properties of \<open>prepare\<close>\<close>

text \<open>
  C7: \<open>prepare\<close> raises the invalid-mode error, with nothing built or printed and whatever
  the registry holds, whenever the mode is neither \<open>train\<close> nor \<open>test\<close>; for these two modes
  the check raises nothing, and \<open>prepare\<close> is all that follows the check.
\<close>

theorem prepare_mode_check:
  "(mode c \<noteq> ''train'' \<and> mode c \<noteq> ''test'' \<longrightarrow>
      prepare reg c =
        Inl (ValueError ''The InstanceAttributeRecognitionTask's mode must be train or eval'', []))
   \<and> (mode c = ''train'' \<or> mode c = ''test'' \<longrightarrow> prepare reg c = prepare_body reg c)"
proof (intro conjI impI)
  assume "mode c \<noteq> ''train'' \<and> mode c \<noteq> ''test''"
  then show "prepare reg c =
      Inl (ValueError ''The InstanceAttributeRecognitionTask's mode must be train or eval'', [])"
    by (simp add: prepare_def prepare_body_def)
next
  assume "mode c = ''train'' \<or> mode c = ''test''"
  then show "prepare reg c = prepare_body reg c"
    by (auto simp: prepare_def)
qed

theorem prepare_mode_check_witness:
  "prepare (demo_registry no_collate_fn) (demo_config ''eval'' (PyStr ''w'') 3) =
     Inl (ValueError ''The InstanceAttributeRecognitionTask's mode must be train or eval'', [])
   \<and> prepare (demo_registry no_collate_fn) (demo_config ''train'' (PyStr ''w'') 3)
       = prepare_body (demo_registry no_collate_fn) (demo_config ''train'' (PyStr ''w'') 3)
   \<and> prepare (demo_registry no_collate_fn) (demo_config ''test'' (PyStr ''w'') 3)
       = prepare_body (demo_registry no_collate_fn) (demo_config ''test'' (PyStr ''w'') 3)"
proof -
  have m: "mode (demo_config ''eval'' (PyStr ''w'') 3) = ''eval''"
    "mode (demo_config ''train'' (PyStr ''w'') 3) = ''train''"
    "mode (demo_config ''test'' (PyStr ''w'') 3) = ''test''"
    by (simp_all add: demo_config_def)
  from prepare_mode_check [of "demo_config ''eval'' (PyStr ''w'') 3" "demo_registry no_collate_fn"]
       prepare_mode_check [of "demo_config ''train'' (PyStr ''w'') 3" "demo_registry no_collate_fn"]
       prepare_mode_check [of "demo_config ''test'' (PyStr ''w'') 3" "demo_registry no_collate_fn"]
  show ?thesis unfolding m by simp
qed

lemma prepare_Inr_train:
  assumes "prepare reg c = Inr ((t, w), ls)" and "mode c = ''train''"
  shows "\<exists>ev dw tu. prepare_common reg c = Inr (w, ev, dw, tu) \<and>
           prepare_train reg c (ev, dw, tu) = Inr (t, ls)"
  using assms by (auto simp: prepare_def prepare_body_def split: sum.splits prod.splits if_splits)

lemma prepare_Inr_test:
  assumes "prepare reg c = Inr ((t, w), ls)" and "mode c \<noteq> ''train''"
  shows "mode c = ''test'' \<and> (\<exists>ev dw tu. prepare_common reg c = Inr (w, ev, dw, tu) \<and>
           prepare_test reg c (ev, dw, tu) = Inr (t, ls))"
  using assms by (auto simp: prepare_def prepare_body_def split: sum.splits prod.splits if_splits)

lemma prepare_train_Inr:
  assumes "prepare_train reg c (ev, dw, tu) = Inr (t, ls)"
  shows "\<exists>mk_pipe mk_ds bs o1 o2 o3.
     build_pipeline reg (name (pipeline_setting c)) = Inr mk_pipe \<and>
     build_dataset reg (name (dataset_setting c)) = Inr mk_ds \<and>
     getitem (get_settings (train_settings c)) ''batch_size'' = Inr bs \<and>
     getitem (get_settings (dataset_setting c)) ''trainloader'' = Inr (PyDict o1) \<and>
     getitem (get_settings (dataset_setting c)) ''valloader'' = Inr (PyDict o2) \<and>
     getitem (get_settings (dataset_setting c)) ''testloader'' = Inr (PyDict o3) \<and>
     (let train_tr = mk_pipe ''train'' (get_settings (pipeline_setting c));
          evalu_tr = mk_pipe ''evalu'' (get_settings (pipeline_setting c));
          ds_train = mk_ds ''train'' train_tr (get_settings (dataset_setting c));
          ds_val = mk_ds ''val'' evalu_tr (get_settings (dataset_setting c));
          ds_test = mk_ds ''test'' evalu_tr (get_settings (dataset_setting c));
          cf = fst (try_collate_fn reg ds_train) in
      loader_error reg o1 ds_train bs = None \<and> loader_error reg o2 ds_val bs = None \<and>
      loader_error reg o3 ds_test bs = None \<and>
      t = config.extend c
            (task.fields ev dw tu (Some train_tr) (Some evalu_tr)
               (Some ds_train) (Some ds_val) (Some ds_test)
               (Some \<lparr>ld_dataset = ds_train, ld_batch_size = bs, ld_collate_fn = cf,
                       ld_options = o1\<rparr>)
               (Some \<lparr>ld_dataset = ds_val, ld_batch_size = bs, ld_collate_fn = cf,
                       ld_options = o2\<rparr>)
               (Some \<lparr>ld_dataset = ds_test, ld_batch_size = bs, ld_collate_fn = cf,
                       ld_options = o3\<rparr>))
      \<and> ls = [snd (try_collate_fn reg ds_train)])"
  using assms
  by (auto simp: prepare_train_def split_loader_def DataLoader_def Let_def
      split: sum.splits prod.splits pyval.splits option.splits)

lemma prepare_test_Inr:
  assumes "prepare_test reg c (ev, dw, tu) = Inr (t, ls)"
  shows "\<exists>mk_pipe mk_ds bs o3.
     build_pipeline reg (name (pipeline_setting c)) = Inr mk_pipe \<and>
     build_dataset reg (name (dataset_setting c)) = Inr mk_ds \<and>
     getitem (get_settings (eval_settings c)) ''batch_size'' = Inr bs \<and>
     getitem (get_settings (dataset_setting c)) ''testloader'' = Inr (PyDict o3) \<and>
     (let evalu_tr = mk_pipe ''evalu'' (get_settings (pipeline_setting c));
          ds_test = mk_ds ''test'' evalu_tr (get_settings (dataset_setting c));
          cf = fst (try_collate_fn reg ds_test) in
      loader_error reg o3 ds_test bs = None \<and>
      t = config.extend c
            (task.fields ev dw tu None (Some evalu_tr) None None (Some ds_test)
               None None
               (Some \<lparr>ld_dataset = ds_test, ld_batch_size = bs, ld_collate_fn = cf,
                       ld_options = o3\<rparr>))
      \<and> ls = [snd (try_collate_fn reg ds_test)])"
  using assms
  by (auto simp: prepare_test_def split_loader_def DataLoader_def Let_def
      split: sum.splits prod.splits pyval.splits option.splits)

lemma build_pipeline_Inr:
  "build_pipeline reg n = Inr mk \<Longrightarrow> pl_mode (mk m kw) = m"
  by (auto simp: build_pipeline_def split: if_splits)

lemma build_dataset_Inr:
  "build_dataset reg n = Inr mk \<Longrightarrow> ds_mode (mk m tr kw) = m"
  by (auto simp: build_dataset_def split: if_splits)

text \<open>
  C4: a \<open>prepare\<close> that returns in mode \<open>train\<close> has built three loaders, over the
  \<open>train\<close>, \<open>val\<close> and \<open>test\<close> datasets, all with the batch size of the train settings, and
  the two pipelines \<open>train\<close> and \<open>evalu\<close>; in the other mode, which is then \<open>test\<close>, it has
  built the one loader over the \<open>test\<close> dataset, with the batch size of the evaluation
  settings, and the one pipeline \<open>evalu\<close>.
\<close>

theorem prepare_builds:
  assumes "prepare reg c = Inr ((t, w), ls)"
  shows "(mode c = ''train'' \<longrightarrow>
            (\<exists>bs. getitem (get_settings (train_settings c)) ''batch_size'' = Inr bs \<and>
               map (\<lambda>l. ds_mode (ld_dataset l)) (loaders t) = [''train'', ''val'', ''test''] \<and>
               map ld_batch_size (loaders t) = [bs, bs, bs] \<and>
               map pl_mode (pipelines t) = [''train'', ''evalu'']))
       \<and> (mode c \<noteq> ''train'' \<longrightarrow>
            (\<exists>bs. getitem (get_settings (eval_settings c)) ''batch_size'' = Inr bs \<and>
               mode c = ''test'' \<and>
               map (\<lambda>l. ds_mode (ld_dataset l)) (loaders t) = [''test''] \<and>
               map ld_batch_size (loaders t) = [bs] \<and>
               map pl_mode (pipelines t) = [''evalu'']))"
proof (intro conjI impI)
  assume m: "mode c = ''train''"
  from prepare_Inr_train [OF assms m] obtain ev dw tu
    where "prepare_train reg c (ev, dw, tu) = Inr (t, ls)" by blast
  from prepare_train_Inr [OF this] show
    "\<exists>bs. getitem (get_settings (train_settings c)) ''batch_size'' = Inr bs \<and>
       map (\<lambda>l. ds_mode (ld_dataset l)) (loaders t) = [''train'', ''val'', ''test''] \<and>
       map ld_batch_size (loaders t) = [bs, bs, bs] \<and>
       map pl_mode (pipelines t) = [''train'', ''evalu'']"
    by (auto simp: Let_def loaders_def pipelines_def DataLoader_def
        config.defs task.defs build_pipeline_Inr build_dataset_Inr)
next
  assume m: "mode c \<noteq> ''train''"
  from prepare_Inr_test [OF assms m] obtain ev dw tu
    where tm: "mode c = ''test''" and "prepare_test reg c (ev, dw, tu) = Inr (t, ls)" by blast
  from prepare_test_Inr [OF this(2)] tm show
    "\<exists>bs. getitem (get_settings (eval_settings c)) ''batch_size'' = Inr bs \<and>
       mode c = ''test'' \<and>
       map (\<lambda>l. ds_mode (ld_dataset l)) (loaders t) = [''test''] \<and>
       map ld_batch_size (loaders t) = [bs] \<and>
       map pl_mode (pipelines t) = [''evalu'']"
    by (auto simp: Let_def loaders_def pipelines_def DataLoader_def
        config.defs task.defs build_pipeline_Inr build_dataset_Inr)
qed


lemma demo_prepare_train:
  "\<exists>t ls. prepare (demo_registry cf) (demo_config ''train'' (PyStr ''w'') 3) = Inr ((t, 0), ls)"
  by (simp add: prepare_def prepare_body_def prepare_common_def prepare_train_def build_model_def
      build_evaluation_def build_train_util_def build_pipeline_def build_dataset_def
      split_loader_def DataLoader_def getitem_def demo_registry_def demo_config_def
      demo_setting_def
      Let_def split: prod.splits)

lemma demo_prepare_test:
  "\<exists>t ls. prepare (demo_registry cf) (demo_config ''test'' (PyStr ''w'') 3) = Inr ((t, 0), ls)"
  by (simp add: prepare_def prepare_body_def prepare_common_def prepare_test_def build_model_def
      build_evaluation_def build_train_util_def build_pipeline_def build_dataset_def
      split_loader_def DataLoader_def getitem_def demo_registry_def demo_config_def
      demo_setting_def
      Let_def split: prod.splits)

theorem prepare_builds_witness:
  "(case prepare (demo_registry no_collate_fn) (demo_config ''train'' (PyStr ''w'') 3) of
      Inl x \<Rightarrow> False
    | Inr ((t, w), ls) \<Rightarrow>
        map (\<lambda>l. ds_mode (ld_dataset l)) (loaders t) = [''train'', ''val'', ''test''] \<and>
        map ld_batch_size (loaders t) = [PyInt 8, PyInt 8, PyInt 8] \<and>
        map pl_mode (pipelines t) = [''train'', ''evalu''])
   \<and> (case prepare (demo_registry no_collate_fn) (demo_config ''test'' (PyStr ''w'') 3) of
      Inl x \<Rightarrow> False
    | Inr ((t, w), ls) \<Rightarrow>
        map (\<lambda>l. ds_mode (ld_dataset l)) (loaders t) = [''test''] \<and>
        map ld_batch_size (loaders t) = [PyInt 4] \<and>
        map pl_mode (pipelines t) = [''evalu''])"
proof -
  obtain t1 ls1 where p1:
    "prepare (demo_registry no_collate_fn) (demo_config ''train'' (PyStr ''w'') 3) = Inr ((t1, 0), ls1)"
    using demo_prepare_train by blast
  obtain t2 ls2 where p2:
    "prepare (demo_registry no_collate_fn) (demo_config ''test'' (PyStr ''w'') 3) = Inr ((t2, 0), ls2)"
    using demo_prepare_test by blast
  have c1: "mode (demo_config ''train'' (PyStr ''w'') 3) = ''train''"
    "getitem (get_settings (train_settings (demo_config ''train'' (PyStr ''w'') 3))) ''batch_size''
       = Inr (PyInt 8)"
    by (simp_all add: demo_config_def demo_setting_def getitem_def)
  have c2: "mode (demo_config ''test'' (PyStr ''w'') 3) \<noteq> ''train''"
    "getitem (get_settings (eval_settings (demo_config ''test'' (PyStr ''w'') 3))) ''batch_size''
       = Inr (PyInt 4)"
    by (simp_all add: demo_config_def demo_setting_def getitem_def)
  from prepare_builds [OF p1] c1 have r1:
    "map (\<lambda>l. ds_mode (ld_dataset l)) (loaders t1) = [''train'', ''val'', ''test''] \<and>
     map ld_batch_size (loaders t1) = [PyInt 8, PyInt 8, PyInt 8] \<and>
     map pl_mode (pipelines t1) = [''train'', ''evalu'']"
    by simp
  from prepare_builds [OF p2] c2 have r2:
    "map (\<lambda>l. ds_mode (ld_dataset l)) (loaders t2) = [''test''] \<and>
     map ld_batch_size (loaders t2) = [PyInt 4] \<and>
     map pl_mode (pipelines t2) = [''evalu'']"
    by simp
  from r1 r2 show ?thesis unfolding p1 p2 by simp
qed

lemma try_collate_fn_fst:
  "fst (try_collate_fn reg ds) = (case dataset_collate_fn reg ds of Inl e \<Rightarrow> PyNone | Inr f \<Rightarrow> f)"
  by (simp add: try_collate_fn_def split: sum.splits)

lemma build_model_collate [simp]:
  "build_model (reg\<lparr>dataset_collate_fn := cf\<rparr>) n = build_model reg n"
  by (simp add: build_model_def)

lemma build_evaluation_collate [simp]:
  "build_evaluation (reg\<lparr>dataset_collate_fn := cf\<rparr>) n = build_evaluation reg n"
  by (simp add: build_evaluation_def)

lemma build_train_util_collate [simp]:
  "build_train_util (reg\<lparr>dataset_collate_fn := cf\<rparr>) n = build_train_util reg n"
  by (simp add: build_train_util_def)

lemma prepare_common_collate [simp]:
  "prepare_common (reg\<lparr>dataset_collate_fn := cf\<rparr>) c = prepare_common reg c"
  by (simp add: prepare_common_def split: sum.splits)

lemma build_pipeline_collate [simp]:
  "build_pipeline (reg\<lparr>dataset_collate_fn := cf\<rparr>) n = build_pipeline reg n"
  by (simp add: build_pipeline_def)

lemma build_dataset_collate [simp]:
  "build_dataset (reg\<lparr>dataset_collate_fn := cf\<rparr>) n = build_dataset reg n"
  by (simp add: build_dataset_def)

lemma split_loader_collate [simp]:
  "split_loader (reg\<lparr>dataset_collate_fn := cf\<rparr>) kw key ds bs c = split_loader reg kw key ds bs c"
  by (simp add: split_loader_def DataLoader_def split: sum.splits pyval.splits)

lemma try_collate_fn_cong:
  "cf ds = dataset_collate_fn reg ds \<Longrightarrow>
     try_collate_fn (reg\<lparr>dataset_collate_fn := cf\<rparr>) ds = try_collate_fn reg ds"
  by (simp add: try_collate_fn_def)

lemma prepare_train_collate_ok:
  assumes "prepare_train reg c r = Inr (t, ls)"
  shows "\<exists>t' ls'. prepare_train (reg\<lparr>dataset_collate_fn := cf\<rparr>) c r = Inr (t', ls')"
proof -
  obtain ev dw tu where r: "r = (ev, dw, tu)" by (cases r)
  from prepare_train_Inr [OF assms [unfolded r]] show ?thesis
    unfolding r
    by (auto simp: prepare_train_def split_loader_def DataLoader_def Let_def split: prod.splits)
qed

lemma prepare_test_collate_ok:
  assumes "prepare_test reg c r = Inr (t, ls)"
  shows "\<exists>t' ls'. prepare_test (reg\<lparr>dataset_collate_fn := cf\<rparr>) c r = Inr (t', ls')"
proof -
  obtain ev dw tu where r: "r = (ev, dw, tu)" by (cases r)
  from prepare_test_Inr [OF assms [unfolded r]] show ?thesis
    unfolding r
    by (auto simp: prepare_test_def split_loader_def DataLoader_def Let_def split: prod.splits)
qed

lemma prepare_train_collate_same:
  assumes "prepare_train reg c r = Inr (t, ls)" and "trainset t = Some ds"
    and "cf ds = dataset_collate_fn reg ds"
  shows "prepare_train (reg\<lparr>dataset_collate_fn := cf\<rparr>) c r = prepare_train reg c r"
proof -
  obtain ev dw tu where r: "r = (ev, dw, tu)" by (cases r)
  from prepare_train_Inr [OF assms(1) [unfolded r]] assms(2,3) show ?thesis
    unfolding r
    by (auto simp: prepare_train_def split_loader_def DataLoader_def Let_def config.defs task.defs
        try_collate_fn_cong)
qed

lemma prepare_test_collate_same:
  assumes "prepare_test reg c r = Inr (t, ls)" and "testset t = Some ds"
    and "cf ds = dataset_collate_fn reg ds"
  shows "prepare_test (reg\<lparr>dataset_collate_fn := cf\<rparr>) c r = prepare_test reg c r"
proof -
  obtain ev dw tu where r: "r = (ev, dw, tu)" by (cases r)
  from prepare_test_Inr [OF assms(1) [unfolded r]] assms(2,3) show ?thesis
    unfolding r
    by (auto simp: prepare_test_def split_loader_def DataLoader_def Let_def config.defs task.defs
        try_collate_fn_cong)
qed

text \<open>
  C5: whether \<open>prepare\<close> returns does not depend on what reading \<open>collate_fn\<close> gives or
  raises.  Every loader it builds has the collation function read from one dataset, the
  training set in mode \<open>train\<close> (the test set otherwise), or \<open>None\<close>, the default batcher,
  when that read raises; what the read gives on any other dataset changes nothing.
\<close>

theorem prepare_collate_fallback:
  assumes "prepare reg c = Inr ((t, w), ls)"
  shows "(\<exists>ds. (if mode c = ''train'' then trainset t else testset t) = Some ds \<and>
            (\<forall>l \<in> set (loaders t). ld_collate_fn l =
                (case dataset_collate_fn reg ds of Inl e \<Rightarrow> PyNone | Inr f \<Rightarrow> f)) \<and>
            (\<forall>cf. cf ds = dataset_collate_fn reg ds \<longrightarrow>
                prepare (reg\<lparr>dataset_collate_fn := cf\<rparr>) c = prepare reg c))
       \<and> (\<forall>cf. \<exists>t' ls'. prepare (reg\<lparr>dataset_collate_fn := cf\<rparr>) c = Inr ((t', w), ls'))"
proof (cases "mode c = ''train''")
  case True
  from prepare_Inr_train [OF assms True] obtain ev dw tu
    where pc: "prepare_common reg c = Inr (w, ev, dw, tu)"
      and pt: "prepare_train reg c (ev, dw, tu) = Inr (t, ls)" by blast
  from prepare_train_Inr [OF pt] obtain ds where ds: "trainset t = Some ds"
    and cf: "\<forall>l \<in> set (loaders t). ld_collate_fn l = fst (try_collate_fn reg ds)"
    by (auto simp: Let_def loaders_def DataLoader_def config.defs task.defs)
  have same: "\<forall>cf. cf ds = dataset_collate_fn reg ds \<longrightarrow>
      prepare (reg\<lparr>dataset_collate_fn := cf\<rparr>) c = prepare reg c"
    using prepare_train_collate_same [OF pt ds] True pc by (simp add: prepare_def prepare_body_def)
  have ok: "\<forall>cf. \<exists>t' ls'. prepare (reg\<lparr>dataset_collate_fn := cf\<rparr>) c = Inr ((t', w), ls')"
  proof
    fix cf
    from prepare_train_collate_ok [OF pt, of cf] obtain t' ls'
      where "prepare_train (reg\<lparr>dataset_collate_fn := cf\<rparr>) c (ev, dw, tu) = Inr (t', ls')"
      by blast
    with True pc show "\<exists>t' ls'. prepare (reg\<lparr>dataset_collate_fn := cf\<rparr>) c = Inr ((t', w), ls')"
      by (simp add: prepare_def prepare_body_def)
  qed
  from ds cf same ok True show ?thesis by (simp add: try_collate_fn_fst)
next
  case False
  from prepare_Inr_test [OF assms False] obtain ev dw tu
    where tm: "mode c = ''test''"
      and pc: "prepare_common reg c = Inr (w, ev, dw, tu)"
      and pt: "prepare_test reg c (ev, dw, tu) = Inr (t, ls)" by blast
  from prepare_test_Inr [OF pt] obtain ds where ds: "testset t = Some ds"
    and cf: "\<forall>l \<in> set (loaders t). ld_collate_fn l = fst (try_collate_fn reg ds)"
    by (auto simp: Let_def loaders_def DataLoader_def config.defs task.defs)
  have same: "\<forall>cf. cf ds = dataset_collate_fn reg ds \<longrightarrow>
      prepare (reg\<lparr>dataset_collate_fn := cf\<rparr>) c = prepare reg c"
    using prepare_test_collate_same [OF pt ds] tm pc by (simp add: prepare_def prepare_body_def)
  have ok: "\<forall>cf. \<exists>t' ls'. prepare (reg\<lparr>dataset_collate_fn := cf\<rparr>) c = Inr ((t', w), ls')"
  proof
    fix cf
    from prepare_test_collate_ok [OF pt, of cf] obtain t' ls'
      where "prepare_test (reg\<lparr>dataset_collate_fn := cf\<rparr>) c (ev, dw, tu) = Inr (t', ls')"
      by blast
    with tm pc show "\<exists>t' ls'. prepare (reg\<lparr>dataset_collate_fn := cf\<rparr>) c = Inr ((t', w), ls')"
      by (simp add: prepare_def prepare_body_def)
  qed
  from ds cf same ok False show ?thesis by (simp add: try_collate_fn_fst)
qed


lemma prepare_train_three_loaders:
  assumes "prepare reg c = Inr ((t, w), ls)" and "mode c = ''train''"
  shows "length (loaders t) = 3"
proof -
  from prepare_Inr_train [OF assms] obtain ev dw tu
    where "prepare_train reg c (ev, dw, tu) = Inr (t, ls)" by blast
  from prepare_train_Inr [OF this] show ?thesis
    by (auto simp: Let_def loaders_def config.defs task.defs)
qed

theorem prepare_collate_fallback_witness:
  "(case prepare (demo_registry no_collate_fn) (demo_config ''train'' (PyStr ''w'') 3) of
      Inl x \<Rightarrow> False
    | Inr ((t, w), ls) \<Rightarrow>
        length (loaders t) = 3 \<and>
        map ld_collate_fn (loaders t) = map (\<lambda>l. PyNone) (loaders t))
   \<and> (case prepare (demo_registry train_collate_only) (demo_config ''train'' (PyStr ''w'') 3) of
      Inl x \<Rightarrow> False
    | Inr ((t, w), ls) \<Rightarrow>
        length (loaders t) = 3 \<and>
        map ld_collate_fn (loaders t) = map (\<lambda>l. PyCallable ''collate'') (loaders t))"
proof -
  have m: "mode (demo_config ''train'' (PyStr ''w'') 3) = ''train''"
    by (simp add: demo_config_def)
  obtain t1 ls1 where p1:
    "prepare (demo_registry no_collate_fn) (demo_config ''train'' (PyStr ''w'') 3) = Inr ((t1, 0), ls1)"
    using demo_prepare_train by blast
  obtain t2 ls2 where p2:
    "prepare (demo_registry train_collate_only) (demo_config ''train'' (PyStr ''w'') 3)
       = Inr ((t2, 0), ls2)"
    using demo_prepare_train by blast
  from prepare_collate_fallback [OF p1] m
  have "\<forall>l \<in> set (loaders t1). ld_collate_fn l = PyNone"
    by (auto simp: demo_registry_def no_collate_fn_def)
  then have r1: "map ld_collate_fn (loaders t1) = map (\<lambda>l. PyNone) (loaders t1)"
    by simp
  from prepare_Inr_train [OF p2 m] obtain ev dw tu
    where "prepare_train (demo_registry train_collate_only)
             (demo_config ''train'' (PyStr ''w'') 3) (ev, dw, tu) = Inr (t2, ls2)" by blast
  from prepare_train_Inr [OF this] have ts: "\<exists>ds. trainset t2 = Some ds \<and> ds_mode ds = ''train''"
    by (auto simp: Let_def config.defs task.defs build_dataset_Inr)
  from prepare_collate_fallback [OF p2] m ts
  have "\<forall>l \<in> set (loaders t2). ld_collate_fn l = PyCallable ''collate''"
    by (auto simp: demo_registry_def train_collate_only_def)
  then have r2: "map ld_collate_fn (loaders t2) = map (\<lambda>l. PyCallable ''collate'') (loaders t2)"
    by simp
  from r1 r2 prepare_train_three_loaders [OF p1 m] prepare_train_three_loaders [OF p2 m]
  show ?thesis unfolding p1 p2 by simp
qed


section \<open>Properties of \<open>eval\<close>\<close>

lemma emit_simps [simp]:
  "model (emit e s) = model s" "ev_score (emit e s) = ev_score s"
  "fs (emit e s) = fs s" "out (emit e s) = out s @ [e]"
  by (simp_all add: emit_def)

lemma call_evaluation_Inr:
  "call_evaluation env m d s = Inr s' \<Longrightarrow>
     \<exists>v. run_evaluation env m d = Inr v \<and> s' = (emit (EvalCall m d) s)\<lparr>ev_score := Some v\<rparr>"
  by (auto simp: call_evaluation_def Let_def split: sum.splits)

lemma call_evaluation_Inl:
  "call_evaluation env m d s = Inl (e, s') \<Longrightarrow>
     run_evaluation env m d = Inl e \<and> s' = emit (EvalCall m d) s"
  by (auto simp: call_evaluation_def Let_def split: sum.splits)

lemma call_evaluation_final:
  "out (final_world (call_evaluation env m d s)) = out s @ [EvalCall m d] \<and>
   model (final_world (call_evaluation env m d s)) = model s \<and>
   fs (final_world (call_evaluation env m d s)) = fs s"
  by (auto simp: call_evaluation_def final_world_def Let_def split: sum.splits)

lemma torch_load_cases:
  "torch_load p loc s =
     (case fs s p of
        None \<Rightarrow> Inl (FileNotFoundError p, emit (TorchLoad p loc) s)
      | Some Corrupt \<Rightarrow> Inl (UnpicklingError p, emit (TorchLoad p loc) s)
      | Some (Checkpoint sd) \<Rightarrow> Inr (sd, emit (TorchLoad p loc) s))"
  by (simp add: torch_load_def Let_def split: option.splits ckfile.splits)

lemma load_pretrained_fs:
  "fs (case load_pretrained env t s of Inl (e, s') \<Rightarrow> s' | Inr s' \<Rightarrow> s') = fs s"
  by (auto simp: load_pretrained_def torch_load_cases Let_def
      split: sum.splits prod.splits option.splits ckfile.splits)

lemma load_pretrained_absent:
  assumes "op_join (d_weight t) (project t @ ''-model-highest.pth'') = Inr p"
    and "fs s p = None \<or> fs s p = Some Corrupt"
  shows "\<exists>e. load_pretrained env t s =
           Inl (e, emit (TorchLoad p ''cpu'')
                 (emit (Print (''Loading pretrained weight: '' @ project t @ ''-model-highest.pth'')) s))"
  using assms by (auto simp: load_pretrained_def torch_load_cases Let_def)

lemma load_pretrained_present:
  assumes "op_join (d_weight t) (project t @ ''-model-highest.pth'') = Inr p"
    and "fs s p = Some (Checkpoint sd)"
  shows "model (case load_pretrained env t s of Inl (e, s') \<Rightarrow> s' | Inr s' \<Rightarrow> s')
           = fst (load_state_dict env False (model s) sd)"
    and "snd (load_state_dict env False (model s) sd) = Inr (mk, uk) \<Longrightarrow>
         \<exists>s'. load_pretrained env t s = Inr s' \<and>
           out s' = out s @
             [Print (''Loading pretrained weight: '' @ project t @ ''-model-highest.pth''),
              TorchLoad p ''cpu'', PrintKeys ''Missing keys: '' mk,
              PrintKeys ''Unexpected keys: '' uk, Print ''Finish ...'']"
  using assms
  by (auto simp: load_pretrained_def torch_load_cases Let_def split: sum.splits prod.splits)

lemma eval_task_steps:
  assumes "testloader t = Some dl"
  shows "\<exists>s2. eval_task env t s = call_evaluation env (LoaderArg dl) (ModelArg (model s2)) s2
     \<and> fs s2 = fs s
     \<and> (\<forall>p. op_join (d_weight t) (project t @ ''-model-highest.pth'') = Inr p \<longrightarrow>
          (fs s p = None \<or> fs s p = Some Corrupt \<longrightarrow>
             model s2 = model s \<and>
             out s2 = out s @
               [Print (''Loading pretrained weight: '' @ project t @ ''-model-highest.pth''),
                TorchLoad p ''cpu'',
                Print ''Cannot find the weight! Using Initialized Weight'',
                Print ''Testing the model of highest validation mAP.''])
        \<and> (\<forall>sd. fs s p = Some (Checkpoint sd) \<longrightarrow>
             model s2 = fst (load_state_dict env False (model s) sd) \<and>
             (\<forall>mk uk. snd (load_state_dict env False (model s) sd) = Inr (mk, uk) \<longrightarrow>
                out s2 = out s @
                  [Print (''Loading pretrained weight: '' @ project t @ ''-model-highest.pth''),
                   TorchLoad p ''cpu'', PrintKeys ''Missing keys: '' mk,
                   PrintKeys ''Unexpected keys: '' uk, Print ''Finish ...'',
                   Print ''Testing the model of highest validation mAP.''])))"
proof -
  define s1 where "s1 = (case load_pretrained env t s of
      Inl (e, s') \<Rightarrow> emit (Print ''Cannot find the weight! Using Initialized Weight'') s'
    | Inr s' \<Rightarrow> s')"
  define s2 where "s2 = emit (Print ''Testing the model of highest validation mAP.'') s1"
  have run: "eval_task env t s = call_evaluation env (LoaderArg dl) (ModelArg (model s2)) s2"
    using assms by (simp add: eval_task_def attr_def s1_def s2_def Let_def)
  have files: "fs s2 = fs s"
    using load_pretrained_fs [of env t s]
    by (auto simp: s1_def s2_def split: sum.splits prod.splits)
  have rest: "(fs s p = None \<or> fs s p = Some Corrupt \<longrightarrow>
             model s2 = model s \<and>
             out s2 = out s @
               [Print (''Loading pretrained weight: '' @ project t @ ''-model-highest.pth''),
                TorchLoad p ''cpu'',
                Print ''Cannot find the weight! Using Initialized Weight'',
                Print ''Testing the model of highest validation mAP.''])
        \<and> (\<forall>sd. fs s p = Some (Checkpoint sd) \<longrightarrow>
             model s2 = fst (load_state_dict env False (model s) sd) \<and>
             (\<forall>mk uk. snd (load_state_dict env False (model s) sd) = Inr (mk, uk) \<longrightarrow>
                out s2 = out s @
                  [Print (''Loading pretrained weight: '' @ project t @ ''-model-highest.pth''),
                   TorchLoad p ''cpu'', PrintKeys ''Missing keys: '' mk,
                   PrintKeys ''Unexpected keys: '' uk, Print ''Finish ...'',
                   Print ''Testing the model of highest validation mAP.'']))"
    if p: "op_join (d_weight t) (project t @ ''-model-highest.pth'') = Inr p" for p
  proof (intro conjI impI allI)
    assume a: "fs s p = None \<or> fs s p = Some Corrupt"
    from load_pretrained_absent [OF p a, of env] obtain e where
      "load_pretrained env t s =
         Inl (e, emit (TorchLoad p ''cpu'')
               (emit (Print (''Loading pretrained weight: '' @ project t @ ''-model-highest.pth'')) s))"
      by blast
    then show "model s2 = model s" and "out s2 = out s @
               [Print (''Loading pretrained weight: '' @ project t @ ''-model-highest.pth''),
                TorchLoad p ''cpu'',
                Print ''Cannot find the weight! Using Initialized Weight'',
                Print ''Testing the model of highest validation mAP.'']"
      by (simp_all add: s1_def s2_def)
  next
    fix sd assume a: "fs s p = Some (Checkpoint sd)"
    from load_pretrained_present(1) [OF p a, of env]
    show "model s2 = fst (load_state_dict env False (model s) sd)"
      by (auto simp: s1_def s2_def split: sum.splits prod.splits)
  next
    fix sd mk uk assume a: "fs s p = Some (Checkpoint sd)"
      and b: "snd (load_state_dict env False (model s) sd) = Inr (mk, uk)"
    from load_pretrained_present(2) [OF p a b] 
    show "out s2 = out s @
                  [Print (''Loading pretrained weight: '' @ project t @ ''-model-highest.pth''),
                   TorchLoad p ''cpu'', PrintKeys ''Missing keys: '' mk,
                   PrintKeys ''Unexpected keys: '' uk, Print ''Finish ...'',
                   Print ''Testing the model of highest validation mAP.'']"
      by (auto simp: s1_def s2_def)
  qed
  from run files rest show ?thesis by blast
qed


text \<open>
  C3: with a test loader set, \<open>eval()\<close> always reaches the call of the evaluation object
  with the test loader and the model, so that it raises only what that call raises, and no
  file is written.  The checkpoint is looked up at the joined path with \<open>map_location\<close>
  \<open>cpu\<close>.  When the file is absent or unreadable the fallback line is printed and the model
  keeps its parameters; when it is readable, the model holds what the non-strict
  \<open>load_state_dict\<close> leaves, and the missing and unexpected keys it returns are printed.
\<close>

theorem eval_load_fallback:
  assumes "testloader t = Some dl"
  shows "\<exists>s2. eval_task env t s = call_evaluation env (LoaderArg dl) (ModelArg (model s2)) s2
     \<and> fs s2 = fs s
     \<and> (\<forall>p. op_join (d_weight t) (project t @ ''-model-highest.pth'') = Inr p \<longrightarrow>
          (fs s p = None \<or> fs s p = Some Corrupt \<longrightarrow>
             model s2 = model s \<and>
             out s2 = out s @
               [Print (''Loading pretrained weight: '' @ project t @ ''-model-highest.pth''),
                TorchLoad p ''cpu'',
                Print ''Cannot find the weight! Using Initialized Weight'',
                Print ''Testing the model of highest validation mAP.''])
        \<and> (\<forall>sd. fs s p = Some (Checkpoint sd) \<longrightarrow>
             model s2 = fst (load_state_dict env False (model s) sd) \<and>
             (\<forall>mk uk. snd (load_state_dict env False (model s) sd) = Inr (mk, uk) \<longrightarrow>
                out s2 = out s @
                  [Print (''Loading pretrained weight: '' @ project t @ ''-model-highest.pth''),
                   TorchLoad p ''cpu'', PrintKeys ''Missing keys: '' mk,
                   PrintKeys ''Unexpected keys: '' uk, Print ''Finish ...'',
                   Print ''Testing the model of highest validation mAP.''])))"
  using eval_task_steps [OF assms] .

lemma demo_task_simps:
  "testloader (demo_task dw n) = Some (demo_loader ''test'' ''evalu'')"
  "valloader (demo_task dw n) = Some (demo_loader ''val'' ''evalu'')"
  "trainloader (demo_task dw n) = Some (demo_loader ''train'' ''train'')"
  "d_weight (demo_task dw n) = dw"
  "project (demo_task dw n) = project_default"
  "device (demo_task dw n) = ''cuda''"
  "get_settings (train_settings (demo_task dw n)) =
     [(''epochs'', PyInt n), (''batch_size'', PyInt 8), (''amp'', PyBool False)]"
  by (simp_all add: demo_task_def demo_config_def demo_setting_def config.defs task.defs)

lemma demo_path_join:
  "op_join (PyStr ''w'') (project_default @ ''-model-highest.pth'') = Inr demo_path"
  by (simp add: op_join_def path_join_def project_default_def demo_path_def)

theorem eval_load_fallback_witness:
  "\<exists>s2. eval_task (demo_env scores3 (\<lambda>e. Saved)) (demo_task (PyStr ''w'') 3) (demo_world Map.empty)
          = call_evaluation (demo_env scores3 (\<lambda>e. Saved))
              (LoaderArg (demo_loader ''test'' ''evalu'')) (ModelArg (model s2)) s2
     \<and> model s2 = 0
     \<and> out s2 =
         [Print (''Loading pretrained weight: '' @ project_default @ ''-model-highest.pth''),
          TorchLoad demo_path ''cpu'',
          Print ''Cannot find the weight! Using Initialized Weight'',
          Print ''Testing the model of highest validation mAP.'']"
proof -
  let ?E = "demo_env scores3 (\<lambda>e. Saved)"
  let ?T = "demo_task (PyStr ''w'') 3"
  let ?W = "demo_world Map.empty"
  have tl: "testloader ?T = Some (demo_loader ''test'' ''evalu'')"
    by (simp add: demo_task_simps)
  have p: "op_join (d_weight ?T) (project ?T @ ''-model-highest.pth'') = Inr demo_path"
    by (simp add: demo_task_simps demo_path_join)
  have absent: "fs ?W demo_path = None \<or> fs ?W demo_path = Some Corrupt"
    by (simp add: demo_world_def)
  from eval_load_fallback [OF tl, of ?E ?W] obtain s2 where
    r: "eval_task ?E ?T ?W =
          call_evaluation ?E (LoaderArg (demo_loader ''test'' ''evalu'')) (ModelArg (model s2)) s2"
    and k: "\<forall>p. op_join (d_weight ?T) (project ?T @ ''-model-highest.pth'') = Inr p \<longrightarrow>
          (fs ?W p = None \<or> fs ?W p = Some Corrupt \<longrightarrow>
             model s2 = model ?W \<and>
             out s2 = out ?W @
               [Print (''Loading pretrained weight: '' @ project ?T @ ''-model-highest.pth''),
                TorchLoad p ''cpu'',
                Print ''Cannot find the weight! Using Initialized Weight'',
                Print ''Testing the model of highest validation mAP.''])"
    by blast
  from k p absent have "model s2 = model ?W \<and>
             out s2 = out ?W @
               [Print (''Loading pretrained weight: '' @ project ?T @ ''-model-highest.pth''),
                TorchLoad demo_path ''cpu'',
                Print ''Cannot find the weight! Using Initialized Weight'',
                Print ''Testing the model of highest validation mAP.'']"
    by blast
  then have "model s2 = 0 \<and> out s2 =
         [Print (''Loading pretrained weight: '' @ project_default @ ''-model-highest.pth''),
          TorchLoad demo_path ''cpu'',
          Print ''Cannot find the weight! Using Initialized Weight'',
          Print ''Testing the model of highest validation mAP.'']"
    by (simp add: demo_task_simps demo_world_def)
  with r show ?thesis by blast
qed

lemma eval_task_final:
  assumes "testloader t = Some dl"
  shows "\<exists>pre. out (final_world (eval_task env t s)) =
           out s @ pre @ [EvalCall (LoaderArg dl) (ModelArg (model (final_world (eval_task env t s))))]
         \<and> GetMAP \<notin> set pre"
proof -
  define s1 where "s1 = (case load_pretrained env t s of
      Inl (e, s') \<Rightarrow> emit (Print ''Cannot find the weight! Using Initialized Weight'') s'
    | Inr s' \<Rightarrow> s')"
  define s2 where "s2 = emit (Print ''Testing the model of highest validation mAP.'') s1"
  have run: "eval_task env t s = call_evaluation env (LoaderArg dl) (ModelArg (model s2)) s2"
    using assms by (simp add: eval_task_def attr_def s1_def s2_def Let_def)
  have "\<exists>pre. out s1 = out s @ pre \<and> GetMAP \<notin> set pre"
    by (auto simp: s1_def load_pretrained_def torch_load_cases Let_def
        split: sum.splits prod.splits option.splits ckfile.splits)
  then obtain pre where "out s2 = out s @ (pre @ [Print ''Testing the model of highest validation mAP.''])"
    and "GetMAP \<notin> set (pre @ [Print ''Testing the model of highest validation mAP.''])"
    by (auto simp: s2_def)
  with call_evaluation_final [of env "LoaderArg dl" "ModelArg (model s2)" s2] run
  show ?thesis by (metis append.assoc)
qed

text \<open>
  C6: on the concrete task, with no checkpoint file, \<open>eval()\<close> calls the evaluation object
  with the test loader bound to \<open>model\<close> and the model bound to \<open>dataloader\<close>, the call
  raises, and \<open>get_mAP()\<close> is never called.
\<close>

theorem eval_call_is_positional:
  "(case eval_task (demo_env scores3 (\<lambda>e. Saved)) (demo_task (PyStr ''w'') 3)
           (demo_world Map.empty) of
      Inl (e, s) \<Rightarrow>
        e = TypeError ''evaluation'' \<and>
        last (out s) = EvalCall (LoaderArg (demo_loader ''test'' ''evalu'')) (ModelArg 0) \<and>
        GetMAP \<notin> set (out s)
    | Inr s \<Rightarrow> False)"
proof -
  let ?E = "demo_env scores3 (\<lambda>e. Saved)"
  let ?T = "demo_task (PyStr ''w'') 3"
  let ?W = "demo_world Map.empty"
  from eval_task_final [of ?T "demo_loader ''test'' ''evalu''" ?E ?W]
  obtain pre where o: "out (final_world (eval_task ?E ?T ?W)) =
      pre @ [EvalCall (LoaderArg (demo_loader ''test'' ''evalu''))
               (ModelArg (model (final_world (eval_task ?E ?T ?W))))]"
    and g: "GetMAP \<notin> set pre"
    by (auto simp: demo_task_simps demo_world_def)
  have tl: "testloader ?T = Some (demo_loader ''test'' ''evalu'')"
    by (simp add: demo_task_simps)
  have p: "op_join (d_weight ?T) (project ?T @ ''-model-highest.pth'') = Inr demo_path"
    by (simp add: demo_task_simps demo_path_join)
  have absent: "fs ?W demo_path = None \<or> fs ?W demo_path = Some Corrupt"
    by (simp add: demo_world_def)
  from eval_task_steps [OF tl, of ?E ?W] p absent obtain s2 where
    r: "eval_task ?E ?T ?W = call_evaluation ?E
          (LoaderArg (demo_loader ''test'' ''evalu'')) (ModelArg (model s2)) s2"
    and m0: "model s2 = model ?W" by blast
  have m: "model s2 = 0" using m0 by (simp add: demo_world_def)
  have e: "eval_task ?E ?T ?W =
      Inl (TypeError ''evaluation'',
           emit (EvalCall (LoaderArg (demo_loader ''test'' ''evalu'')) (ModelArg 0)) s2)"
    unfolding r m by (simp add: call_evaluation_def demo_env_def Let_def)
  from o g show ?thesis
    unfolding e by (simp add: final_world_def)
qed


section \<open>Properties of \<open>train\<close>\<close>

lemma save_highest_eq:
  "save_highest env t epoch s =
     (case op_join (d_weight t) (project t @ ''-model-highest.pth'') of
        Inl e \<Rightarrow> emit (Print ''Save Model Weight Failed!'') s
      | Inr p \<Rightarrow>
          (case save_result env epoch of
             Saved \<Rightarrow> (emit (TorchSave p (model s)) s)\<lparr>fs := (fs s)(p \<mapsto> Checkpoint (model s))\<rparr>
           | FailedUntouched \<Rightarrow>
               emit (Print ''Save Model Weight Failed!'') (emit (TorchSave p (model s)) s)
           | FailedPartial \<Rightarrow>
               emit (Print ''Save Model Weight Failed!'')
                 ((emit (TorchSave p (model s)) s)\<lparr>fs := (fs s)(p \<mapsto> Corrupt)\<rparr>)))"
  by (simp add: save_highest_def torch_save_def Let_def split: sum.splits save_result.splits)

lemma save_highest_model [simp]:
  "model (save_highest env t epoch s) = model s"
  "ev_score (save_highest env t epoch s) = ev_score s"
  by (simp_all add: save_highest_eq split: sum.splits save_result.splits)

lemma train_epoch_Inr:
  assumes "train_epoch env t epoch (s, l) = Inr (s', l')"
  shows "\<exists>dl n amp w opt vl v.
     trainloader t = Some dl \<and>
     getitem (get_settings (train_settings t)) ''epochs'' = Inr n \<and>
     getitem (get_settings (train_settings t)) ''amp'' = Inr amp \<and>
     run_train_util env (model s) dl (optimizer l) epoch n (device t) amp = Inr (w, opt) \<and>
     valloader t = Some vl \<and>
     run_evaluation env (ModelArg w) (LoaderArg vl) = Inr v \<and>
     l' = \<lparr>optimizer = scheduler_step env v opt,
           highest_mAP = (if v > highest_mAP l then v else highest_mAP l), mAP = Some v\<rparr> \<and>
     s' = (let s3 = after_eval s w v
                      [TrainUtil epoch n, EvalCall (ModelArg w) (LoaderArg vl), GetMAP] in
           if v > highest_mAP l then save_highest env t epoch s3 else s3)"
proof -
  note defs = train_epoch_def attr_def
  from assms obtain dl where dl: "trainloader t = Some dl"
    by (cases "trainloader t") (simp_all add: defs)
  from assms dl obtain n where n: "getitem (get_settings (train_settings t)) ''epochs'' = Inr n"
    by (cases "getitem (get_settings (train_settings t)) ''epochs''") (simp_all add: defs)
  from assms dl n obtain amp
    where amp: "getitem (get_settings (train_settings t)) ''amp'' = Inr amp"
    by (cases "getitem (get_settings (train_settings t)) ''amp''") (simp_all add: defs)
  from assms dl n amp obtain w opt
    where tu: "run_train_util env (model s) dl (optimizer l) epoch n (device t) amp = Inr (w, opt)"
    by (cases "run_train_util env (model s) dl (optimizer l) epoch n (device t) amp")
       (auto simp: defs)
  from assms dl n amp tu obtain vl where vl: "valloader t = Some vl"
    by (cases "valloader t") (simp_all add: defs Let_def)
  from assms dl n amp tu vl obtain v
    where ev: "run_evaluation env (ModelArg w) (LoaderArg vl) = Inr v"
    by (cases "run_evaluation env (ModelArg w) (LoaderArg vl)")
       (simp_all add: defs Let_def call_evaluation_def emit_def)
  from assms dl n amp tu vl ev
  have "l' = \<lparr>optimizer = scheduler_step env v opt,
           highest_mAP = (if v > highest_mAP l then v else highest_mAP l), mAP = Some v\<rparr> \<and>
     s' = (let s3 = after_eval s w v
                      [TrainUtil epoch n, EvalCall (ModelArg w) (LoaderArg vl), GetMAP] in
           if v > highest_mAP l then save_highest env t epoch s3 else s3)"
    by (cases l)
       (auto simp: defs Let_def call_evaluation_def get_mAP_def emit_def after_eval_def
          split: if_splits)
  with dl n amp tu vl ev show ?thesis by blast
qed


lemma paths_of_append [simp]: "paths_of (xs @ ys) = paths_of xs @ paths_of ys"
  by (induction xs rule: paths_of.induct) simp_all

lemma saves_of_append [simp]: "saves_of (xs @ ys) = saves_of xs @ saves_of ys"
  by (induction xs rule: saves_of.induct) simp_all

lemma reported_append [simp]: "reported (xs @ ys) = reported xs @ reported ys"
  by (induction xs rule: reported.induct) simp_all

text \<open>An epoch that raises has called neither \<open>torch.save\<close> nor \<open>torch.load\<close>.\<close>

lemma train_epoch_Inl:
  assumes "train_epoch env t epoch (s, l) = Inl (e, s1, l1)"
  shows "fs s1 = fs s \<and>
         (\<exists>evs. out s1 = out s @ evs \<and> paths_of evs = [] \<and> reported evs = [])"
proof (cases "trainloader t")
  case None
  with assms show ?thesis by (auto simp: train_epoch_def attr_def)
next
  case dl: (Some dl)
  show ?thesis
  proof (cases "getitem (get_settings (train_settings t)) ''epochs''")
    case (Inl a)
    with assms dl show ?thesis by (auto simp: train_epoch_def attr_def)
  next
    case n: (Inr n)
    show ?thesis
    proof (cases "getitem (get_settings (train_settings t)) ''amp''")
      case (Inl a)
      with assms dl n show ?thesis by (auto simp: train_epoch_def attr_def)
    next
      case amp: (Inr amp)
      show ?thesis
      proof (cases "run_train_util env (model s) dl (optimizer l) epoch n (device t) amp")
        case (Inl a)
        with assms dl n amp show ?thesis by (auto simp: train_epoch_def attr_def)
      next
        case (Inr r)
        then obtain w opt where
          tu: "run_train_util env (model s) dl (optimizer l) epoch n (device t) amp = Inr (w, opt)"
          by (cases r) simp
        show ?thesis
        proof (cases "valloader t")
          case None
          with assms dl n amp tu show ?thesis by (auto simp: train_epoch_def attr_def Let_def)
        next
          case vl: (Some vl)
          show ?thesis
          proof (cases "run_evaluation env (ModelArg w) (LoaderArg vl)")
            case (Inl a)
            with assms dl n amp tu vl show ?thesis
              by (auto simp: train_epoch_def attr_def Let_def call_evaluation_def)
          next
            case (Inr v)
            with assms dl n amp tu vl show ?thesis
              by (simp add: train_epoch_def attr_def Let_def call_evaluation_def get_mAP_def
                  split: if_splits)
          qed
        qed
      qed
    qed
  qed
qed

text \<open>What a completed epoch appends to the observations, and what it does to the files.\<close>

lemma train_epoch_out:
  fixes env :: "('a, 'o) env"
  assumes "train_epoch env t epoch (s, l) = Inr (s', l')"
  shows "\<exists>evs v. mAP l' = Some v \<and> out s' = out s @ evs \<and> reported evs = [] \<and>
     highest_mAP l' = (if v > highest_mAP l then v else highest_mAP l) \<and>
     (\<not> v > highest_mAP l \<longrightarrow> paths_of evs = [] \<and> saves_of evs = [] \<and> fs s' = fs s) \<and>
     (v > highest_mAP l \<longrightarrow>
        (case op_join (d_weight t) (project t @ ''-model-highest.pth'') of
           Inl a \<Rightarrow> paths_of evs = [] \<and> saves_of evs = [] \<and> fs s' = fs s
         | Inr p \<Rightarrow> paths_of evs = [p] \<and> saves_of evs = [(p, model s')] \<and>
             fs s' = (case save_result env epoch of
                        Saved \<Rightarrow> (fs s)(p \<mapsto> Checkpoint (model s'))
                      | FailedUntouched \<Rightarrow> fs s
                      | FailedPartial \<Rightarrow> (fs s)(p \<mapsto> Corrupt))))"
proof -
  from train_epoch_Inr [OF assms] obtain n w vl v where
    l': "l' = \<lparr>optimizer = optimizer l', highest_mAP = (if v > highest_mAP l then v else highest_mAP l),
               mAP = Some v\<rparr>"
    and s': "s' = (let s3 = after_eval s w v
                      [TrainUtil epoch n, EvalCall (ModelArg w) (LoaderArg vl), GetMAP] in
           if v > highest_mAP l then save_highest env t epoch s3 else s3)"
    by auto
  have l1: "mAP l' = Some v" "highest_mAP l' = (if v > highest_mAP l then v else highest_mAP l)"
    by (subst l', simp)+
  show ?thesis
  proof (cases "v > highest_mAP l")
    case False
    with s' have "out s' = out s @ [TrainUtil epoch n, EvalCall (ModelArg w) (LoaderArg vl), GetMAP]"
      and "fs s' = fs s"
      by (simp_all add: after_eval_def)
    with l1 False show ?thesis by (intro exI [of _ "[TrainUtil epoch n, EvalCall (ModelArg w) (LoaderArg vl), GetMAP]"] exI [of _ v]) simp
  next
    case True
    let ?s3 = "after_eval s w v [TrainUtil epoch n, EvalCall (ModelArg w) (LoaderArg vl), GetMAP]"
    from True s' have e: "s' = save_highest env t epoch ?s3" by simp
    have m: "model s' = w" unfolding e by (simp add: after_eval_def)
    show ?thesis
    proof (cases "op_join (d_weight t) (project t @ ''-model-highest.pth'')")
      case (Inl a)
      then have "out s' = out s @ [TrainUtil epoch n, EvalCall (ModelArg w) (LoaderArg vl), GetMAP,
                   Print ''Save Model Weight Failed!'']" and "fs s' = fs s"
        unfolding e by (simp_all add: save_highest_eq after_eval_def)
      with l1 True Inl show ?thesis
        by (intro exI [of _ "[TrainUtil epoch n, EvalCall (ModelArg w) (LoaderArg vl), GetMAP,
                   Print ''Save Model Weight Failed!'']"] exI [of _ v]) simp
    next
      case (Inr p)
      define tail :: "'a event list" where "tail = (case save_result env epoch of
          Saved \<Rightarrow> [] | _ \<Rightarrow> [Print ''Save Model Weight Failed!''])"
      from Inr have o: "out s' = out s @ ([TrainUtil epoch n, EvalCall (ModelArg w) (LoaderArg vl),
                   GetMAP, TorchSave p w] @ tail)"
        and f: "fs s' = (case save_result env epoch of
                        Saved \<Rightarrow> (fs s)(p \<mapsto> Checkpoint w)
                      | FailedUntouched \<Rightarrow> fs s
                      | FailedPartial \<Rightarrow> (fs s)(p \<mapsto> Corrupt))"
        unfolding e tail_def
        by (simp_all add: save_highest_eq after_eval_def split: save_result.splits)
      have t: "paths_of tail = []" "saves_of tail = []" "reported tail = []"
        by (simp_all add: tail_def split: save_result.splits)
      from l1 True Inr o f t m show ?thesis
        by (intro exI [of _ "[TrainUtil epoch n, EvalCall (ModelArg w) (LoaderArg vl),
                   GetMAP, TorchSave p w] @ tail"] exI [of _ v])
           (simp split: save_result.splits)
    qed
  qed
qed


lemma train_epoch_view:
  assumes "model s' = model s" and "ev_score s' = ev_score s"
  shows "loop_view (train_epoch (env\<lparr>save_result := sv\<rparr>) t epoch (s', l))
           = loop_view (train_epoch env t epoch (s, l))"
proof (cases "trainloader t")
  case None
  with assms show ?thesis by (simp add: train_epoch_def attr_def loop_view_def)
next
  case dl: (Some dl)
  show ?thesis
  proof (cases "getitem (get_settings (train_settings t)) ''epochs''")
    case (Inl a)
    with assms dl show ?thesis by (simp add: train_epoch_def attr_def loop_view_def)
  next
    case n: (Inr n)
    show ?thesis
    proof (cases "getitem (get_settings (train_settings t)) ''amp''")
      case (Inl a)
      with assms dl n show ?thesis by (simp add: train_epoch_def attr_def loop_view_def)
    next
      case amp: (Inr amp)
      show ?thesis
      proof (cases "run_train_util env (model s) dl (optimizer l) epoch n (device t) amp")
        case (Inl a)
        with assms dl n amp show ?thesis by (simp add: train_epoch_def attr_def loop_view_def)
      next
        case (Inr r)
        then obtain w opt where
          tu: "run_train_util env (model s) dl (optimizer l) epoch n (device t) amp = Inr (w, opt)"
          by (cases r) simp
        show ?thesis
        proof (cases "valloader t")
          case None
          with assms dl n amp tu show ?thesis
            by (simp add: train_epoch_def attr_def loop_view_def Let_def)
        next
          case vl: (Some vl)
          show ?thesis
          proof (cases "run_evaluation env (ModelArg w) (LoaderArg vl)")
            case (Inl a)
            with assms dl n amp tu vl show ?thesis
              by (simp add: train_epoch_def attr_def loop_view_def Let_def call_evaluation_def)
          next
            case (Inr v)
            with assms dl n amp tu vl show ?thesis
              by (simp add: train_epoch_def attr_def loop_view_def Let_def call_evaluation_def
                  get_mAP_def)
          qed
        qed
      qed
    qed
  qed
qed

lemma loop_view_Inl:
  "loop_view r = Inl (e, w, sc, l) \<Longrightarrow> \<exists>s. r = Inl (e, s, l) \<and> model s = w \<and> ev_score s = sc"
  by (auto simp: loop_view_def split: sum.splits prod.splits)

lemma loop_view_Inr:
  "loop_view r = Inr (w, sc, l) \<Longrightarrow> \<exists>s. r = Inr (s, l) \<and> model s = w \<and> ev_score s = sc"
  by (auto simp: loop_view_def split: sum.splits prod.splits)

lemma train_loop_view:
  assumes "model s' = model s" and "ev_score s' = ev_score s"
  shows "loop_view (train_loop (env\<lparr>save_result := sv\<rparr>) t es (s', l))
           = loop_view (train_loop env t es (s, l))"
  using assms
proof (induction es arbitrary: s s' l)
  case Nil
  then show ?case by (simp add: loop_view_def)
next
  case (Cons epoch es)
  note v = train_epoch_view [OF Cons.prems, where env=env and sv=sv and t=t and epoch=epoch and l=l]
  show ?case
  proof (cases "train_epoch env t epoch (s, l)")
    case (Inl x)
    obtain e s1 l1 where x: "x = (e, s1, l1)" by (cases x)
    from v Inl x have "loop_view (train_epoch (env\<lparr>save_result := sv\<rparr>) t epoch (s', l))
        = Inl (e, model s1, ev_score s1, l1)"
      by (simp add: loop_view_def)
    from loop_view_Inl [OF this] Inl x show ?thesis
      by (auto simp: loop_view_def)
  next
    case (Inr st)
    obtain s1 l1 where st: "st = (s1, l1)" by (cases st)
    from v Inr st have "loop_view (train_epoch (env\<lparr>save_result := sv\<rparr>) t epoch (s', l))
        = Inr (model s1, ev_score s1, l1)"
      by (simp add: loop_view_def)
    from loop_view_Inr [OF this] obtain s1' where
      r: "train_epoch (env\<lparr>save_result := sv\<rparr>) t epoch (s', l) = Inr (s1', l1)"
      and m: "model s1' = model s1" "ev_score s1' = ev_score s1" by blast
    from Cons.IH [OF m] Inr st r show ?thesis by simp
  qed
qed

lemma train_epoch_failed_save:
  assumes "train_epoch env t epoch (s, l) = Inr (s', l')"
    and "mAP l' = Some v" and "highest_mAP l < v" and "save_result env epoch \<noteq> Saved"
  shows "highest_mAP l' = v \<and> last (out s') = Print ''Save Model Weight Failed!''"
proof -
  from train_epoch_Inr [OF assms(1)] obtain n w vl v' where
    l': "l' = \<lparr>optimizer = optimizer l', highest_mAP = (if v' > highest_mAP l then v' else highest_mAP l),
               mAP = Some v'\<rparr>"
    and s': "s' = (let s3 = after_eval s w v'
                      [TrainUtil epoch n, EvalCall (ModelArg w) (LoaderArg vl), GetMAP] in
           if v' > highest_mAP l then save_highest env t epoch s3 else s3)"
    by auto
  have "mAP l' = Some v'" by (subst l') simp
  with assms(2) have vv: "v' = v" by simp
  have h: "highest_mAP l' = v" using assms(3) by (subst l') (simp add: vv)
  from s' assms(3) have "s' = save_highest env t epoch
      (after_eval s w v [TrainUtil epoch n, EvalCall (ModelArg w) (LoaderArg vl), GetMAP])"
    by (simp add: vv)
  with assms(4) have "last (out s') = Print ''Save Model Weight Failed!''"
    by (simp add: save_highest_eq split: sum.splits save_result.splits)
  with h show ?thesis by simp
qed

text \<open>
  C8: whether the saves succeed or fail changes nothing in the loop but the files and the
  printed lines: with any other outcome of \<open>torch.save\<close> the loop raises the same exception
  or returns with the same parameters and the same locals, \<open>highest_mAP\<close> among them.  An
  epoch whose score improves on \<open>highest_mAP\<close> and whose save fails returns with
  \<open>highest_mAP\<close> set to the score, its last printed line being the failure notice.
\<close>

theorem save_failure_is_local:
  "loop_view (train_loop (env\<lparr>save_result := sv\<rparr>) t es (s, l))
     = loop_view (train_loop env t es (s, l))
   \<and> (\<forall>epoch s' l' v.
         train_epoch env t epoch (s, l) = Inr (s', l') \<and> mAP l' = Some v \<and>
         highest_mAP l < v \<and> save_result env epoch \<noteq> Saved \<longrightarrow>
           highest_mAP l' = v \<and> last (out s') = Print ''Save Model Weight Failed!'')"
  using train_loop_view [where s=s and s'=s and env=env and sv=sv and t=t and es=es and l=l]
    train_epoch_failed_save [where env=env and t=t and s=s and l=l]
  by blast


lemma demo_env_save_result:
  "(demo_env sc sv)\<lparr>save_result := sv'\<rparr> = demo_env sc sv'"
  by (simp add: demo_env_def)

lemma demo_loop_saved:
  "loop_view (train_loop (demo_env scores3 (\<lambda>e. Saved)) (demo_task (PyStr ''w'') 3) [0 ..< 3]
      (demo_world Map.empty, \<lparr>optimizer = (), highest_mAP = 0, mAP = None\<rparr>))
   = Inr (3, Some (6 / 10), \<lparr>optimizer = (), highest_mAP = 7 / 10, mAP = Some (6 / 10)\<rparr>)"
  by code_simp

lemma demo_epoch_failed:
  "\<exists>s' l'. train_epoch (demo_env scores3 (\<lambda>e. FailedUntouched)) (demo_task (PyStr ''w'') 3) 0
      (demo_world Map.empty, \<lparr>optimizer = (), highest_mAP = 0, mAP = None\<rparr>) = Inr (s', l')
     \<and> mAP l' = Some (5 / 10)"
  by (simp add: train_epoch_def attr_def getitem_def call_evaluation_def get_mAP_def Let_def
      demo_task_simps demo_env_def demo_world_def demo_loader_def scores3_def)

theorem save_failure_is_local_witness:
  "loop_view (train_loop (demo_env scores3 (\<lambda>e. FailedUntouched)) (demo_task (PyStr ''w'') 3)
      [0 ..< 3] (demo_world Map.empty, \<lparr>optimizer = (), highest_mAP = 0, mAP = None\<rparr>))
     = Inr (3, Some (6 / 10), \<lparr>optimizer = (), highest_mAP = 7 / 10, mAP = Some (6 / 10)\<rparr>)
   \<and> (case train_epoch (demo_env scores3 (\<lambda>e. FailedUntouched)) (demo_task (PyStr ''w'') 3) 0
              (demo_world Map.empty, \<lparr>optimizer = (), highest_mAP = 0, mAP = None\<rparr>) of
          Inl x \<Rightarrow> False
        | Inr (s', l') \<Rightarrow>
            highest_mAP l' = 5 / 10 \<and> last (out s') = Print ''Save Model Weight Failed!'')"
proof -
  let ?F = "demo_env scores3 (\<lambda>e. FailedUntouched)"
  let ?T = "demo_task (PyStr ''w'') 3"
  let ?st = "(demo_world Map.empty, \<lparr>optimizer = (), highest_mAP = 0 :: real, mAP = None\<rparr>)"
  note inst = save_failure_is_local [where env = ?F and t = ?T and s = "demo_world Map.empty"
      and l = "\<lparr>optimizer = (), highest_mAP = 0, mAP = None\<rparr>"]
  from inst [where sv = "\<lambda>e. Saved" and es = "[0 ..< 3]"]
  have "loop_view (train_loop ?F ?T [0 ..< 3] ?st)
      = loop_view (train_loop (demo_env scores3 (\<lambda>e. Saved)) ?T [0 ..< 3] ?st)"
    by (simp add: demo_env_save_result)
  then have a: "loop_view (train_loop ?F ?T [0 ..< 3] ?st)
      = Inr (3, Some (6 / 10), \<lparr>optimizer = (), highest_mAP = 7 / 10, mAP = Some (6 / 10)\<rparr>)"
    by (simp only: demo_loop_saved)
  from demo_epoch_failed obtain s' l' where
    r: "train_epoch ?F ?T 0 ?st = Inr (s', l')" and m: "mAP l' = Some (5 / 10)" by blast
  have f: "save_result ?F 0 \<noteq> Saved" by (simp add: demo_env_def)
  note q = conjunct2 [OF inst [where sv = "\<lambda>e. Saved" and es = "[]"], rule_format,
      of 0 s' l' "5 / 10"]
  from q r m f
  have "highest_mAP l' = 5 / 10 \<and> last (out s') = Print ''Save Model Weight Failed!''"
    by simp
  with a r show ?thesis by simp
qed


lemma train_loop_reported:
  "train_loop env t es (s, l) = Inr (s', l') \<Longrightarrow> reported (out s') = reported (out s)"
proof (induction es arbitrary: s l)
  case Nil
  then show ?case by simp
next
  case (Cons epoch es)
  from Cons.prems obtain s1 l1 where e: "train_epoch env t epoch (s, l) = Inr (s1, l1)"
    and r: "train_loop env t es (s1, l1) = Inr (s', l')"
    by (auto split: sum.splits)
  from train_epoch_out [OF e] have "reported (out s1) = reported (out s)" by auto
  with Cons.IH [OF r] show ?case by simp
qed

lemma train_loop_last_mAP:
  assumes "train_loop env t es (s, l) = Inr (s', l')" and "es \<noteq> []"
  shows "\<exists>vl v. valloader t = Some vl \<and> mAP l' = Some v \<and>
           run_evaluation env (ModelArg (model s')) (LoaderArg vl) = Inr v"
  using assms
proof (induction es arbitrary: s l)
  case Nil
  then show ?case by simp
next
  case (Cons epoch es)
  from Cons.prems obtain s1 l1 where e: "train_epoch env t epoch (s, l) = Inr (s1, l1)"
    and r: "train_loop env t es (s1, l1) = Inr (s', l')"
    by (auto split: sum.splits)
  show ?case
  proof (cases "es = []")
    case False
    from Cons.IH [OF r False] show ?thesis .
  next
    case True
    with r have same: "s' = s1" "l' = l1" by simp_all
    from train_epoch_Inr [OF e] obtain n w vl v where
      vl: "valloader t = Some vl" and ev: "run_evaluation env (ModelArg w) (LoaderArg vl) = Inr v"
      and l1: "l1 = \<lparr>optimizer = optimizer l1,
                 highest_mAP = (if v > highest_mAP l then v else highest_mAP l), mAP = Some v\<rparr>"
      and s1: "s1 = (let s3 = after_eval s w v
                      [TrainUtil epoch n, EvalCall (ModelArg w) (LoaderArg vl), GetMAP] in
           if v > highest_mAP l then save_highest env t epoch s3 else s3)"
      by auto
    have "mAP l1 = Some v" by (subst l1) simp
    moreover have "model s1 = w" by (subst s1) (simp add: after_eval_def Let_def)
    ultimately show ?thesis using vl ev same by auto
  qed
qed

lemma train_finish_Inr:
  assumes "train_finish env t (s1, l1) = Inr s'"
  shows "\<exists>p sd dl tv v.
     op_join (d_weight t) (project t @ ''-model-highest.pth'') = Inr p \<and>
     fs s1 p = Some (Checkpoint sd) \<and>
     model s' = fst (load_state_dict env True (model s1) sd) \<and>
     testloader t = Some dl \<and>
     run_evaluation env (ModelArg (model s')) (LoaderArg dl) = Inr tv \<and>
     ev_score s' = Some tv \<and> mAP l1 = Some v \<and> fs s' = fs s1 \<and>
     out s' = out s1 @
       [Print ''Finish Train'', Print ''Testing the model of highest validation mAP.'',
        TorchLoad p (device t), EvalCall (ModelArg (model s')) (LoaderArg dl),
        Print ''Finish Test'', PrintDict ''test_mAP'' v]"
proof -
  note defs = train_finish_def Let_def
  let ?s2 = "emit (Print ''Testing the model of highest validation mAP.'')
                (emit (Print ''Finish Train'') s1)"
  from assms obtain p where p: "op_join (d_weight t) (project t @ ''-model-highest.pth'') = Inr p"
    by (cases "op_join (d_weight t) (project t @ ''-model-highest.pth'')") (simp_all add: defs)
  from assms p obtain sd where sd: "fs s1 p = Some (Checkpoint sd)"
    by (cases "fs s1 p"; cases "the (fs s1 p)") (simp_all add: defs torch_load_cases)
  obtain w r where lsd: "load_state_dict env True (model s1) sd = (w, r)"
    by (cases "load_state_dict env True (model s1) sd")
  from assms p sd lsd obtain keys where keys: "r = Inr keys"
    by (cases r) (simp_all add: defs torch_load_cases)
  from assms p sd lsd keys obtain dl where dl: "testloader t = Some dl"
    by (cases "testloader t") (simp_all add: defs torch_load_cases attr_def)
  from assms p sd lsd keys dl obtain tv where
    tv: "run_evaluation env (ModelArg w) (LoaderArg dl) = Inr tv"
    by (cases "run_evaluation env (ModelArg w) (LoaderArg dl)")
       (simp_all add: defs torch_load_cases attr_def call_evaluation_def)
  from assms p sd lsd keys dl tv obtain v where v: "mAP l1 = Some v"
    by (cases "mAP l1") (simp_all add: defs torch_load_cases attr_def call_evaluation_def)
  from assms p sd lsd keys dl tv v have
    "s' = (?s2\<lparr>out := out ?s2 @ [TorchLoad p (device t)], model := w,
              out := out ?s2 @ [TorchLoad p (device t), EvalCall (ModelArg w) (LoaderArg dl)],
              ev_score := Some tv,
              out := out ?s2 @ [TorchLoad p (device t), EvalCall (ModelArg w) (LoaderArg dl),
                 Print ''Finish Test'', PrintDict ''test_mAP'' v]\<rparr>)"
    by (simp add: defs torch_load_cases attr_def call_evaluation_def emit_def)
  then have "model s' = w" "ev_score s' = Some tv" "fs s' = fs s1"
    "out s' = out s1 @
       [Print ''Finish Train'', Print ''Testing the model of highest validation mAP.'',
        TorchLoad p (device t), EvalCall (ModelArg w) (LoaderArg dl),
        Print ''Finish Test'', PrintDict ''test_mAP'' v]"
    by simp_all
  with p sd lsd dl tv v show ?thesis by auto
qed

text \<open>
  C1: a \<open>train()\<close> that returns has run at least one epoch, and the value it prints under
  \<open>test_mAP\<close>, the last thing it prints and the only value under that key, is the score of
  the validation loader on the parameters the last epoch left; the score of the test pass,
  on the reloaded parameters, is left in the evaluation object and is not read.
\<close>

theorem train_reports_last_validation_mAP:
  assumes "train env t s = Inr s'"
  shows "\<exists>n es s1 l1 vl v dl tv.
     getitem (get_settings (train_settings t)) ''epochs'' = Inr n \<and> py_range n = Inr es \<and>
     es \<noteq> [] \<and> train_loop env t es (s, train_init env s) = Inr (s1, l1) \<and>
     valloader t = Some vl \<and>
     run_evaluation env (ModelArg (model s1)) (LoaderArg vl) = Inr v \<and>
     testloader t = Some dl \<and>
     run_evaluation env (ModelArg (model s')) (LoaderArg dl) = Inr tv \<and>
     ev_score s' = Some tv \<and>
     last (out s') = PrintDict ''test_mAP'' v \<and>
     reported (out s') = reported (out s) @ [v]"
proof -
  from assms obtain n where n: "getitem (get_settings (train_settings t)) ''epochs'' = Inr n"
    by (cases "getitem (get_settings (train_settings t)) ''epochs''") (simp_all add: train_def)
  from assms n obtain es where es: "py_range n = Inr es"
    by (cases "py_range n") (simp_all add: train_def)
  from assms n es obtain s1 l1 where
    loop: "train_loop env t es (s, train_init env s) = Inr (s1, l1)"
    and fin: "train_finish env t (s1, l1) = Inr s'"
    by (cases "train_loop env t es (s, train_init env s)") (auto simp: train_def)
  from train_finish_Inr [OF fin] obtain p dl tv v where
    dl: "testloader t = Some dl"
    and tv: "run_evaluation env (ModelArg (model s')) (LoaderArg dl) = Inr tv"
    and sc: "ev_score s' = Some tv" and v: "mAP l1 = Some v"
    and o: "out s' = out s1 @
       [Print ''Finish Train'', Print ''Testing the model of highest validation mAP.'',
        TorchLoad p (device t), EvalCall (ModelArg (model s')) (LoaderArg dl),
        Print ''Finish Test'', PrintDict ''test_mAP'' v]"
    by blast
  have ne: "es \<noteq> []"
  proof
    assume "es = []"
    with loop have "l1 = train_init env s" by auto
    with v show False by (simp add: train_init_def)
  qed
  from train_loop_last_mAP [OF loop ne] v obtain vl where
    vl: "valloader t = Some vl"
    and ev: "run_evaluation env (ModelArg (model s1)) (LoaderArg vl) = Inr v"
    by auto
  from o train_loop_reported [OF loop]
  have "last (out s') = PrintDict ''test_mAP'' v" "reported (out s') = reported (out s) @ [v]"
    by simp_all
  with n es ne loop vl ev dl tv sc show ?thesis by blast
qed


lemma demo_train_returns:
  "\<exists>s'. train (demo_env scores3 (\<lambda>e. Saved)) (demo_task (PyStr ''w'') 3) (demo_world Map.empty)
         = Inr s'"
proof -
  have "(case train (demo_env scores3 (\<lambda>e. Saved)) (demo_task (PyStr ''w'') 3)
           (demo_world Map.empty) of Inl x \<Rightarrow> False | Inr s' \<Rightarrow> True)"
    by code_simp
  then show ?thesis by (simp split: sum.splits)
qed

theorem train_reports_last_validation_mAP_witness:
  "(case train (demo_env scores3 (\<lambda>e. Saved)) (demo_task (PyStr ''w'') 3) (demo_world Map.empty) of
      Inl x \<Rightarrow> False
    | Inr s' \<Rightarrow> reported (out s') = [6 / 10] \<and> ev_score s' = Some (9 / 10))"
proof -
  let ?E = "demo_env scores3 (\<lambda>e. Saved)"
  let ?T = "demo_task (PyStr ''w'') 3"
  let ?W = "demo_world Map.empty"
  from demo_train_returns obtain s' where r: "train ?E ?T ?W = Inr s'" by blast
  from train_reports_last_validation_mAP [OF r] obtain n es s1 l1 vl v dl tv where
    n: "getitem (get_settings (train_settings ?T)) ''epochs'' = Inr n" and es: "py_range n = Inr es"
    and loop: "train_loop ?E ?T es (?W, train_init ?E ?W) = Inr (s1, l1)"
    and vl: "valloader ?T = Some vl"
    and ev: "run_evaluation ?E (ModelArg (model s1)) (LoaderArg vl) = Inr v"
    and dl: "testloader ?T = Some dl"
    and tv: "run_evaluation ?E (ModelArg (model s')) (LoaderArg dl) = Inr tv"
    and sc: "ev_score s' = Some tv"
    and rep: "reported (out s') = reported (out ?W) @ [v]"
    by blast
  from n have "n = PyInt 3" by (simp add: demo_task_simps getitem_def)
  with es have es3: "es = [0 ..< 3]" by (simp add: py_range_def)
  have init: "train_init ?E ?W = \<lparr>optimizer = (), highest_mAP = 0, mAP = None\<rparr>"
    by (simp add: train_init_def)
  from loop have "loop_view (train_loop ?E ?T [0 ..< 3]
      (?W, \<lparr>optimizer = (), highest_mAP = 0, mAP = None\<rparr>)) = Inr (model s1, ev_score s1, l1)"
    unfolding es3 init by (simp add: loop_view_def)
  then have m: "model s1 = 3" by (simp only: demo_loop_saved) simp
  from vl have vl': "vl = demo_loader ''val'' ''evalu''" by (simp add: demo_task_simps)
  from dl have dl': "dl = demo_loader ''test'' ''evalu''" by (simp add: demo_task_simps)
  from ev have "v = 6 / 10"
    unfolding m vl' by (simp add: demo_env_def demo_loader_def scores3_def)
  moreover from tv have "tv = 9 / 10"
    unfolding dl' by (simp add: demo_env_def demo_loader_def)
  ultimately show ?thesis using r rep sc by (simp add: demo_world_def)
qed


lemma joined_Nil [simp]: "paths_of evs = [] \<Longrightarrow> joined t evs"
  by (simp add: joined_def)

lemma joined_append [simp]: "joined t (xs @ ys) \<longleftrightarrow> joined t xs \<and> joined t ys"
  by (simp add: joined_def)

lemma train_epoch_joined:
  "case train_epoch env t epoch (s, l) of
     Inl (e, s1, l1) \<Rightarrow> \<exists>evs. out s1 = out s @ evs \<and> joined t evs
   | Inr (s1, l1) \<Rightarrow> \<exists>evs. out s1 = out s @ evs \<and> joined t evs"
proof (cases "train_epoch env t epoch (s, l)")
  case (Inl x)
  obtain e s1 l1 where x: "x = (e, s1, l1)" by (cases x)
  from train_epoch_Inl [OF Inl [unfolded x]] Inl x show ?thesis by auto
next
  case (Inr st)
  obtain s1 l1 where st: "st = (s1, l1)" by (cases st)
  from train_epoch_out [OF Inr [unfolded st]] obtain evs v where
    o: "out s1 = out s @ evs"
    and a: "\<not> v > highest_mAP l \<longrightarrow> paths_of evs = [] \<and> saves_of evs = [] \<and> fs s1 = fs s"
    and b: "v > highest_mAP l \<longrightarrow>
        (case op_join (d_weight t) (project t @ ''-model-highest.pth'') of
           Inl a \<Rightarrow> paths_of evs = [] \<and> saves_of evs = [] \<and> fs s1 = fs s
         | Inr p \<Rightarrow> paths_of evs = [p] \<and> saves_of evs = [(p, model s1)] \<and>
             fs s1 = (case save_result env epoch of
                        Saved \<Rightarrow> (fs s)(p \<mapsto> Checkpoint (model s1))
                      | FailedUntouched \<Rightarrow> fs s
                      | FailedPartial \<Rightarrow> (fs s)(p \<mapsto> Corrupt)))"
    by blast
  have "joined t evs"
  proof (cases "v > highest_mAP l")
    case False
    with a show ?thesis by simp
  next
    case True
    with b show ?thesis
      by (cases "op_join (d_weight t) (project t @ ''-model-highest.pth'')")
         (simp_all add: joined_def)
  qed
  with o Inr st show ?thesis by auto
qed

lemma train_loop_joined:
  "case train_loop env t es (s, l) of
     Inl (e, s1, l1) \<Rightarrow> \<exists>evs. out s1 = out s @ evs \<and> joined t evs
   | Inr (s1, l1) \<Rightarrow> \<exists>evs. out s1 = out s @ evs \<and> joined t evs"
proof (induction es arbitrary: s l)
  case Nil
  show ?case by (simp add: joined_def)
next
  case (Cons epoch es)
  show ?case
  proof (cases "train_epoch env t epoch (s, l)")
    case (Inl x)
    with train_epoch_joined [where env=env and t=t and epoch=epoch and s=s and l=l] show ?thesis by simp
  next
    case (Inr st)
    obtain s1 l1 where st: "st = (s1, l1)" by (cases st)
    from train_epoch_joined [where env=env and t=t and epoch=epoch and s=s and l=l] Inr st obtain evs where
      o: "out s1 = out s @ evs" and j: "joined t evs" by auto
    from Cons.IH [where s=s1 and l=l1] o j Inr st show ?thesis
      by (auto split: sum.splits)
  qed
qed

lemma train_finish_joined:
  "\<exists>evs. out (final_world (train_finish env t (s1, l1))) = out s1 @ evs \<and> joined t evs"
proof (cases "op_join (d_weight t) (project t @ ''-model-highest.pth'')")
  case (Inl a)
  then show ?thesis by (simp add: joined_def train_finish_def final_world_def Let_def)
next
  case p: (Inr p)
  show ?thesis
  proof (cases "\<exists>sd. fs s1 p = Some (Checkpoint sd)")
    case False
    then have "fs s1 p = None \<or> fs s1 p = Some Corrupt"
      by (cases "fs s1 p"; cases "the (fs s1 p)") auto
    with p show ?thesis
      by (auto simp: joined_def train_finish_def final_world_def Let_def torch_load_cases)
  next
    case True
    then obtain sd where sd: "fs s1 p = Some (Checkpoint sd)" by blast
    obtain w r where lsd: "load_state_dict env True (model s1) sd = (w, r)"
      by (cases "load_state_dict env True (model s1) sd")
    show ?thesis
    proof (cases r)
      case (Inl a)
      with p sd lsd show ?thesis
        by (simp add: joined_def train_finish_def final_world_def Let_def torch_load_cases)
    next
      case keys: (Inr keys)
      show ?thesis
      proof (cases "testloader t")
        case None
        with p sd lsd keys show ?thesis
          by (simp add: joined_def train_finish_def final_world_def Let_def torch_load_cases attr_def)
      next
        case dl: (Some dl)
        show ?thesis
        proof (cases "run_evaluation env (ModelArg w) (LoaderArg dl)")
          case (Inl a)
          with p sd lsd keys dl show ?thesis
            by (simp add: joined_def train_finish_def final_world_def Let_def torch_load_cases attr_def
                call_evaluation_def)
        next
          case (Inr tv)
          with p sd lsd keys dl show ?thesis
            by (cases "mAP l1")
               (simp_all add: joined_def train_finish_def final_world_def Let_def torch_load_cases attr_def
                  call_evaluation_def)
        qed
      qed
    qed
  qed
qed

lemma train_joined:
  "\<exists>evs. out (final_world (train env t s)) = out s @ evs \<and> joined t evs"
proof (cases "getitem (get_settings (train_settings t)) ''epochs''")
  case (Inl a)
  then show ?thesis by (simp add: train_def final_world_def)
next
  case n: (Inr n)
  show ?thesis
  proof (cases "py_range n")
    case (Inl a)
    with n show ?thesis by (simp add: train_def final_world_def)
  next
    case es: (Inr es)
    show ?thesis
    proof (cases "train_loop env t es (s, train_init env s)")
      case (Inl x)
      obtain e s1 l1 where x: "x = (e, s1, l1)" by (cases x)
      from train_loop_joined [where env=env and t=t and es=es and s=s and l="train_init env s"] Inl x n es show ?thesis
        by (simp add: train_def final_world_def)
    next
      case (Inr st)
      obtain s1 l1 where st: "st = (s1, l1)" by (cases st)
      from train_loop_joined [where env=env and t=t and es=es and s=s and l="train_init env s"] Inr st obtain evs where
        o: "out s1 = out s @ evs" and j: "joined t evs" by auto
      from train_finish_joined [where env=env and t=t and ?s1.0=s1 and ?l1.0=l1] obtain evs' where
        "out (final_world (train_finish env t (s1, l1))) = out s1 @ evs'" and "joined t evs'"
        by blast
      with o j have "out (final_world (train_finish env t (s1, l1))) = out s @ (evs @ evs')
          \<and> joined t (evs @ evs')" by simp
      with Inr st n es show ?thesis by (auto simp: train_def)
    qed
  qed
qed

lemma load_pretrained_joined:
  "\<exists>evs. out (case load_pretrained env t s of Inl (e, s') \<Rightarrow> s' | Inr s' \<Rightarrow> s') = out s @ evs
         \<and> joined t evs"
proof (cases "op_join (d_weight t) (project t @ ''-model-highest.pth'')")
  case (Inl a)
  then show ?thesis by (simp add: joined_def load_pretrained_def Let_def)
next
  case p: (Inr p)
  show ?thesis
  proof (cases "\<exists>sd. fs s p = Some (Checkpoint sd)")
    case False
    then have "fs s p = None \<or> fs s p = Some Corrupt"
      by (cases "fs s p"; cases "the (fs s p)") auto
    with p show ?thesis
      by (auto simp: joined_def load_pretrained_def Let_def torch_load_cases)
  next
    case True
    then obtain sd where sd: "fs s p = Some (Checkpoint sd)" by blast
    obtain w r where lsd: "load_state_dict env False (model s) sd = (w, r)"
      by (cases "load_state_dict env False (model s) sd")
    with p sd show ?thesis
      by (cases r) (auto simp: joined_def load_pretrained_def Let_def torch_load_cases)
  qed
qed

lemma eval_task_joined:
  "\<exists>evs. out (final_world (eval_task env t s)) = out s @ evs \<and> joined t evs"
proof -
  define s1 where "s1 = (case load_pretrained env t s of
      Inl (e, s') \<Rightarrow> emit (Print ''Cannot find the weight! Using Initialized Weight'') s'
    | Inr s' \<Rightarrow> s')"
  define s2 where "s2 = emit (Print ''Testing the model of highest validation mAP.'') s1"
  from load_pretrained_joined [where env=env and t=t and s=s] obtain evs where
    o: "out (case load_pretrained env t s of Inl (e, s') \<Rightarrow> s' | Inr s' \<Rightarrow> s') = out s @ evs"
    and j: "joined t evs" by blast
  have "\<exists>evs1. out s1 = out s @ evs1 \<and> joined t evs1"
  proof (cases "load_pretrained env t s")
    case (Inl x)
    obtain e s' where "x = (e, s')" by (cases x)
    with Inl o j have "out s1 = out s @ (evs @ [Print ''Cannot find the weight! Using Initialized Weight''])
        \<and> joined t (evs @ [Print ''Cannot find the weight! Using Initialized Weight''])"
      by (simp add: s1_def)
    then show ?thesis by blast
  next
    case (Inr s')
    with o j show ?thesis by (auto simp: s1_def)
  qed
  then obtain evs1 where o1: "out s1 = out s @ evs1" and j1: "joined t evs1" by blast
  let ?evs2 = "evs1 @ [Print ''Testing the model of highest validation mAP.'']"
  have o2: "out s2 = out s @ ?evs2" and j2: "joined t ?evs2"
    using o1 j1 by (simp_all add: s2_def)
  show ?thesis
  proof (cases "testloader t")
    case None
    then have "eval_task env t s = Inl (AttributeError ''testloader'', s2)"
      by (simp add: eval_task_def attr_def s1_def s2_def Let_def)
    with o2 j2 show ?thesis by (auto simp: final_world_def)
  next
    case (Some dl)
    then have "eval_task env t s = call_evaluation env (LoaderArg dl) (ModelArg (model s2)) s2"
      by (simp add: eval_task_def attr_def s1_def s2_def Let_def)
    with call_evaluation_final [where env=env and m="LoaderArg dl" and d="ModelArg (model s2)" and s=s2] o2 j2
    have "out (final_world (eval_task env t s))
            = out s @ (?evs2 @ [EvalCall (LoaderArg dl) (ModelArg (model s2))])
          \<and> joined t (?evs2 @ [EvalCall (LoaderArg dl) (ModelArg (model s2))])"
      by simp
    then show ?thesis by blast
  qed
qed

lemma path_join_template:
  assumes "dw \<noteq> []" and "last dw \<noteq> CHR ''/''" and "take 1 n \<noteq> ''/''"
  shows "path_join dw n = dw @ ''/'' @ n"
  using assms by (simp add: path_join_def)

text \<open>
  C9, as amended: every path that \<open>train()\<close> gives to \<open>torch.save\<close> or \<open>torch.load\<close> and
  every path that \<open>eval()\<close> gives to \<open>torch.load\<close> is \<open>os.path.join\<close> of the weight directory
  and \<open>project + "-model-highest.pth"\<close>; this is the directory, a slash and the file name
  whenever the directory is a non-empty string that does not end in a slash and the project
  name does not start with one.
\<close>

theorem checkpoint_path_sites:
  "(\<exists>evs. out (final_world (train env t s)) = out s @ evs \<and>
       (\<forall>p \<in> set (paths_of evs).
           op_join (d_weight t) (project t @ ''-model-highest.pth'') = Inr p))
   \<and> (\<exists>evs. out (final_world (eval_task env t s)) = out s @ evs \<and>
       (\<forall>p \<in> set (paths_of evs).
           op_join (d_weight t) (project t @ ''-model-highest.pth'') = Inr p))
   \<and> (\<forall>dw. d_weight t = PyStr dw \<and> dw \<noteq> [] \<and> last dw \<noteq> CHR ''/'' \<and>
           take 1 (project t) \<noteq> ''/'' \<longrightarrow>
         op_join (d_weight t) (project t @ ''-model-highest.pth'')
           = Inr (dw @ ''/'' @ project t @ ''-model-highest.pth''))"
proof (intro conjI allI impI)
  from train_joined [where env=env and t=t and s=s] show
    "\<exists>evs. out (final_world (train env t s)) = out s @ evs \<and>
       (\<forall>p \<in> set (paths_of evs).
           op_join (d_weight t) (project t @ ''-model-highest.pth'') = Inr p)"
    by (auto simp: joined_def list_all_iff)
next
  from eval_task_joined [where env=env and t=t and s=s] show
    "\<exists>evs. out (final_world (eval_task env t s)) = out s @ evs \<and>
       (\<forall>p \<in> set (paths_of evs).
           op_join (d_weight t) (project t @ ''-model-highest.pth'') = Inr p)"
    by (auto simp: joined_def list_all_iff)
next
  fix dw
  assume a: "d_weight t = PyStr dw \<and> dw \<noteq> [] \<and> last dw \<noteq> CHR ''/'' \<and>
           take 1 (project t) \<noteq> ''/''"
  then have "take 1 (project t @ ''-model-highest.pth'') \<noteq> ''/''"
    by (cases "project t") simp_all
  with a show "op_join (d_weight t) (project t @ ''-model-highest.pth'')
           = Inr (dw @ ''/'' @ project t @ ''-model-highest.pth'')"
    by (simp add: op_join_def path_join_template)
qed


lemma demo_paths_nonempty:
  "paths_of (out (final_world (train (demo_env scores3 (\<lambda>e. Saved)) (demo_task (PyStr ''w'') 3)
      (demo_world Map.empty)))) \<noteq> []"
  "paths_of (out (final_world (eval_task (demo_env scores3 (\<lambda>e. Saved))
      (demo_task (PyStr ''w'') 3) (demo_world Map.empty)))) \<noteq> []"
  by code_simp+

lemma set_singleton_list: "xs \<noteq> [] \<Longrightarrow> \<forall>x \<in> set xs. x = a \<Longrightarrow> set xs = {a}"
  by (cases xs) auto

theorem checkpoint_path_sites_witness:
  "set (paths_of (out (final_world (train (demo_env scores3 (\<lambda>e. Saved))
      (demo_task (PyStr ''w'') 3) (demo_world Map.empty))))) = {demo_path}
   \<and> set (paths_of (out (final_world (eval_task (demo_env scores3 (\<lambda>e. Saved))
      (demo_task (PyStr ''w'') 3) (demo_world Map.empty))))) = {demo_path}
   \<and> demo_path = ''w'' @ ''/'' @ project_default @ ''-model-highest.pth''"
proof -
  let ?E = "demo_env scores3 (\<lambda>e. Saved)"
  let ?T = "demo_task (PyStr ''w'') 3"
  let ?W = "demo_world Map.empty"
  note inst = checkpoint_path_sites [where env = ?E and t = ?T and s = ?W]
  have j: "op_join (d_weight ?T) (project ?T @ ''-model-highest.pth'') = Inr demo_path"
    by (simp add: demo_task_simps demo_path_join)
  have e: "out ?W = []" by (simp add: demo_world_def)
  from inst obtain evs where
    "out (final_world (train ?E ?T ?W)) = out ?W @ evs"
    "\<forall>p \<in> set (paths_of evs). op_join (d_weight ?T) (project ?T @ ''-model-highest.pth'') = Inr p"
    by blast
  then have "\<forall>p \<in> set (paths_of (out (final_world (train ?E ?T ?W)))). p = demo_path"
    unfolding j e by auto
  from set_singleton_list [OF demo_paths_nonempty(1) this]
  have a: "set (paths_of (out (final_world (train ?E ?T ?W)))) = {demo_path}" .
  from inst obtain evs where
    "out (final_world (eval_task ?E ?T ?W)) = out ?W @ evs"
    "\<forall>p \<in> set (paths_of evs). op_join (d_weight ?T) (project ?T @ ''-model-highest.pth'') = Inr p"
    by blast
  then have "\<forall>p \<in> set (paths_of (out (final_world (eval_task ?E ?T ?W)))). p = demo_path"
    unfolding j e by auto
  from set_singleton_list [OF demo_paths_nonempty(2) this]
  have b: "set (paths_of (out (final_world (eval_task ?E ?T ?W)))) = {demo_path}" .
  have c: "demo_path = ''w'' @ ''/'' @ project_default @ ''-model-highest.pth''"
    by (simp add: demo_path_def project_default_def)
  from a b c show ?thesis by blast
qed

text \<open>
  C9, as stated, fails for an empty weight directory: the path used by \<open>eval()\<close> and by
  \<open>train()\<close> is then the bare file name, not a slash followed by it.  For a directory that
  ends in a slash no second slash is inserted.
\<close>

theorem checkpoint_path_template_counterexample:
  "paths_of (out (final_world (eval_task (demo_env scores3 (\<lambda>e. Saved))
      (demo_task (PyStr []) 3) (demo_world Map.empty))))
     = [''InstanceAttributeRecognitionProject-model-highest.pth'']
   \<and> paths_of (out (final_world (train (demo_env scores3 (\<lambda>e. Saved))
      (demo_task (PyStr []) 3) (demo_world Map.empty))))
     = [''InstanceAttributeRecognitionProject-model-highest.pth'',
        ''InstanceAttributeRecognitionProject-model-highest.pth'',
        ''InstanceAttributeRecognitionProject-model-highest.pth'']
   \<and> ''InstanceAttributeRecognitionProject-model-highest.pth''
       \<noteq> [] @ ''/'' @ project (demo_task (PyStr []) 3) @ ''-model-highest.pth''
   \<and> paths_of (out (final_world (eval_task (demo_env scores3 (\<lambda>e. Saved))
      (demo_task (PyStr ''w/'') 3) (demo_world Map.empty))))
     = [''w/InstanceAttributeRecognitionProject-model-highest.pth'']
   \<and> ''w/InstanceAttributeRecognitionProject-model-highest.pth''
       \<noteq> ''w/'' @ ''/'' @ project (demo_task (PyStr ''w/'') 3) @ ''-model-highest.pth''"
  by code_simp


lemma train_states_Cons:
  "train_epoch env t epoch st = Inr st' \<Longrightarrow>
     train_states env t (epoch # es) st = st' # train_states env t es st'"
  by simp

lemma train_loop_no_improvement:
  assumes "train_loop env t es (s, l) = Inr (s1, l1)" and "0 \<le> highest_mAP l"
    and "\<forall>st \<in> set (train_states env t es (s, l)). val_mAP st \<le> 0"
  shows "fs s1 = fs s \<and> saves_of (out s1) = saves_of (out s)"
  using assms
proof (induction es arbitrary: s l)
  case Nil
  then show ?case by simp
next
  case (Cons epoch es)
  from Cons.prems(1) obtain s2 l2 where e: "train_epoch env t epoch (s, l) = Inr (s2, l2)"
    and r: "train_loop env t es (s2, l2) = Inr (s1, l1)"
    by (auto split: sum.splits)
  from Cons.prems(3) e have v0: "val_mAP (s2, l2) \<le> 0"
    and rest: "\<forall>st \<in> set (train_states env t es (s2, l2)). val_mAP st \<le> 0"
    by simp_all
  from train_epoch_out [OF e] obtain evs v where
    v: "mAP l2 = Some v" and o: "out s2 = out s @ evs"
    and h: "highest_mAP l2 = (if v > highest_mAP l then v else highest_mAP l)"
    and a: "\<not> v > highest_mAP l \<longrightarrow> paths_of evs = [] \<and> saves_of evs = [] \<and> fs s2 = fs s"
    by blast
  from v v0 have "v \<le> 0" by (simp add: val_mAP_def)
  with Cons.prems(2) have no: "\<not> v > highest_mAP l" by simp
  with h Cons.prems(2) have h2: "0 \<le> highest_mAP l2" by simp
  from a no o have "fs s2 = fs s" "saves_of (out s2) = saves_of (out s)" by simp_all
  with Cons.IH [OF r h2 rest] show ?case by simp
qed

lemma train_loop_failed_saves:
  assumes "train_loop env t es (s, l) = Inr (s1, l1)"
    and "\<forall>k. save_result env k \<noteq> Saved"
    and "op_join (d_weight t) (project t @ ''-model-highest.pth'') = Inr p"
    and "unloadable (fs s) p"
  shows "unloadable (fs s1) p"
  using assms
proof (induction es arbitrary: s l)
  case Nil
  then show ?case by simp
next
  case (Cons epoch es)
  from Cons.prems(1) obtain s2 l2 where e: "train_epoch env t epoch (s, l) = Inr (s2, l2)"
    and r: "train_loop env t es (s2, l2) = Inr (s1, l1)"
    by (auto split: sum.splits)
  from train_epoch_out [OF e] obtain evs v where
    a: "\<not> v > highest_mAP l \<longrightarrow> paths_of evs = [] \<and> saves_of evs = [] \<and> fs s2 = fs s"
    and b: "v > highest_mAP l \<longrightarrow>
        (case op_join (d_weight t) (project t @ ''-model-highest.pth'') of
           Inl a \<Rightarrow> paths_of evs = [] \<and> saves_of evs = [] \<and> fs s2 = fs s
         | Inr p \<Rightarrow> paths_of evs = [p] \<and> saves_of evs = [(p, model s2)] \<and>
             fs s2 = (case save_result env epoch of
                        Saved \<Rightarrow> (fs s)(p \<mapsto> Checkpoint (model s2))
                      | FailedUntouched \<Rightarrow> fs s
                      | FailedPartial \<Rightarrow> (fs s)(p \<mapsto> Corrupt)))"
    by blast
  have "unloadable (fs s2) p"
  proof (cases "v > highest_mAP l")
    case False
    with a Cons.prems(4) show ?thesis by simp
  next
    case True
    with b Cons.prems(3) have "fs s2 = (case save_result env epoch of
                        Saved \<Rightarrow> (fs s)(p \<mapsto> Checkpoint (model s2))
                      | FailedUntouched \<Rightarrow> fs s
                      | FailedPartial \<Rightarrow> (fs s)(p \<mapsto> Corrupt))"
      by simp
    with Cons.prems(2,4) show ?thesis
      by (cases "save_result env epoch") (auto simp: unloadable_def)
  qed
  from Cons.IH [OF r Cons.prems(2,3) this] show ?case .
qed

lemma train_finish_load_fails:
  assumes "op_join (d_weight t) (project t @ ''-model-highest.pth'') = Inr p"
    and "unloadable (fs s1) p"
  shows "\<exists>e s'. train_finish env t (s1, l1) = Inl (e, s') \<and>
           (e = FileNotFoundError p \<or> e = UnpicklingError p) \<and>
           reported (out s') = reported (out s1) \<and> fs s' = fs s1"
proof -
  from assms(2) have "fs s1 p = None \<or> fs s1 p = Some Corrupt"
    by (auto simp: unloadable_def split: option.splits ckfile.splits)
  with assms(1) show ?thesis
    by (auto simp: train_finish_def Let_def torch_load_cases)
qed

text \<open>
  C10, as amended: when no file is at the checkpoint path before the run, the loop
  completes, and either no epoch leaves a validation score above 0 or no save succeeds,
  then no readable checkpoint is at the path after the loop, the load that follows raises,
  and \<open>train()\<close> ends with that exception without printing a test result.
\<close>

theorem train_without_checkpoint_raises:
  assumes "op_join (d_weight t) (project t @ ''-model-highest.pth'') = Inr p"
    and "fs s p = None"
    and "getitem (get_settings (train_settings t)) ''epochs'' = Inr n"
    and "py_range n = Inr es"
    and "train_loop env t es (s, train_init env s) = Inr (s1, l1)"
    and "(\<forall>st \<in> set (train_states env t es (s, train_init env s)). val_mAP st \<le> 0)
           \<or> (\<forall>k. save_result env k \<noteq> Saved)"
  shows "(\<forall>sd. fs s1 p \<noteq> Some (Checkpoint sd))
     \<and> (\<exists>e s'. train env t s = Inl (e, s') \<and>
           (e = FileNotFoundError p \<or> e = UnpicklingError p) \<and>
           reported (out s') = reported (out s))"
proof -
  have u0: "unloadable (fs s) p" using assms(2) by (simp add: unloadable_def)
  have u1: "unloadable (fs s1) p"
    using assms(6)
  proof
    assume "\<forall>st \<in> set (train_states env t es (s, train_init env s)). val_mAP st \<le> 0"
    from train_loop_no_improvement [OF assms(5) _ this] have "fs s1 = fs s"
      by (simp add: train_init_def)
    with u0 show ?thesis by simp
  next
    assume "\<forall>k. save_result env k \<noteq> Saved"
    from train_loop_failed_saves [OF assms(5) this assms(1) u0] show ?thesis .
  qed
  then have a: "\<forall>sd. fs s1 p \<noteq> Some (Checkpoint sd)"
    by (auto simp: unloadable_def)
  from train_finish_load_fails [OF assms(1) u1, of env l1] obtain e s' where
    "train_finish env t (s1, l1) = Inl (e, s')"
    "e = FileNotFoundError p \<or> e = UnpicklingError p"
    "reported (out s') = reported (out s1)" by blast
  with assms(3,4,5) train_loop_reported [OF assms(5)]
  have "train env t s = Inl (e, s') \<and> (e = FileNotFoundError p \<or> e = UnpicklingError p) \<and>
           reported (out s') = reported (out s)"
    by (simp add: train_def)
  with a show ?thesis by blast
qed


lemma demo_zero_loop:
  "\<exists>s1 l1. train_loop (demo_env (\<lambda>w. 0) (\<lambda>e. Saved)) (demo_task (PyStr ''w'') 3) [0 ..< 3]
      (demo_world Map.empty, \<lparr>optimizer = (), highest_mAP = 0, mAP = None\<rparr>) = Inr (s1, l1)"
proof -
  have "(case train_loop (demo_env (\<lambda>w. 0) (\<lambda>e. Saved)) (demo_task (PyStr ''w'') 3) [0 ..< 3]
      (demo_world Map.empty, \<lparr>optimizer = (), highest_mAP = 0, mAP = None\<rparr>) of
        Inl x \<Rightarrow> False | Inr st \<Rightarrow> True)"
    by code_simp
  then show ?thesis by (auto split: sum.splits)
qed

lemma demo_zero_scores:
  "list_all (\<lambda>st. val_mAP st \<le> 0)
     (train_states (demo_env (\<lambda>w. 0) (\<lambda>e. Saved)) (demo_task (PyStr ''w'') 3) [0 ..< 3]
        (demo_world Map.empty, \<lparr>optimizer = (), highest_mAP = 0, mAP = None\<rparr>))"
  by code_simp

lemma demo_failed_loop:
  "\<exists>s1 l1. train_loop (demo_env scores3 (\<lambda>e. FailedPartial)) (demo_task (PyStr ''w'') 3) [0 ..< 3]
      (demo_world Map.empty, \<lparr>optimizer = (), highest_mAP = 0, mAP = None\<rparr>) = Inr (s1, l1)"
proof -
  have "(case train_loop (demo_env scores3 (\<lambda>e. FailedPartial)) (demo_task (PyStr ''w'') 3)
      [0 ..< 3] (demo_world Map.empty, \<lparr>optimizer = (), highest_mAP = 0, mAP = None\<rparr>) of
        Inl x \<Rightarrow> False | Inr st \<Rightarrow> True)"
    by code_simp
  then show ?thesis by (auto split: sum.splits)
qed

lemma demo_train_init:
  "train_init (demo_env sc sv) (demo_world files) = \<lparr>optimizer = (), highest_mAP = 0, mAP = None\<rparr>"
  by (simp add: train_init_def)

lemma demo_epochs:
  "getitem (get_settings (train_settings (demo_task dw 3))) ''epochs'' = Inr (PyInt 3)"
  "py_range (PyInt 3) = Inr [0 ..< 3]"
  by (simp_all add: demo_task_simps getitem_def py_range_def)

theorem train_without_checkpoint_raises_witness:
  "(\<exists>s'. train (demo_env (\<lambda>w. 0) (\<lambda>e. Saved)) (demo_task (PyStr ''w'') 3) (demo_world Map.empty)
           = Inl (FileNotFoundError demo_path, s') \<and> reported (out s') = [])
   \<and> (\<exists>s'. train (demo_env scores3 (\<lambda>e. FailedPartial)) (demo_task (PyStr ''w'') 3)
           (demo_world Map.empty)
           = Inl (UnpicklingError demo_path, s') \<and> reported (out s') = [])"
proof -
  let ?T = "demo_task (PyStr ''w'') 3"
  let ?W = "demo_world Map.empty :: nat world"
  let ?L = "\<lparr>optimizer = (), highest_mAP = 0 :: real, mAP = None\<rparr>"
  have j: "op_join (d_weight ?T) (project ?T @ ''-model-highest.pth'') = Inr demo_path"
    by (simp add: demo_task_simps demo_path_join)
  have absent: "fs ?W demo_path = None" by (simp add: demo_world_def)
  have e: "reported (out ?W) = []" by (simp add: demo_world_def)
  let ?Z = "demo_env (\<lambda>w. 0) (\<lambda>e. Saved)"
  from demo_zero_loop obtain s1 l1 where
    loop: "train_loop ?Z ?T [0 ..< 3] (?W, train_init ?Z ?W) = Inr (s1, l1)"
    unfolding demo_train_init by blast
  have c: "(\<forall>st \<in> set (train_states ?Z ?T [0 ..< 3] (?W, train_init ?Z ?W)). val_mAP st \<le> 0)
             \<or> (\<forall>k. save_result ?Z k \<noteq> Saved)"
    using demo_zero_scores unfolding demo_train_init by (simp add: list_all_iff)
  from train_without_checkpoint_raises [OF j absent demo_epochs loop c] obtain e1 s' where
    r: "train ?Z ?T ?W = Inl (e1, s')"
    and k: "e1 = FileNotFoundError demo_path \<or> e1 = UnpicklingError demo_path"
    and rep: "reported (out s') = reported (out ?W)" by blast
  have "(case train ?Z ?T ?W of Inl (x, s) \<Rightarrow> x = FileNotFoundError demo_path | Inr s \<Rightarrow> False)"
    by code_simp
  with r have "e1 = FileNotFoundError demo_path" by simp
  with r rep e have a: "\<exists>s'. train ?Z ?T ?W = Inl (FileNotFoundError demo_path, s')
      \<and> reported (out s') = []" by simp
  let ?F = "demo_env scores3 (\<lambda>e. FailedPartial)"
  from demo_failed_loop obtain s2 l2 where
    loop2: "train_loop ?F ?T [0 ..< 3] (?W, train_init ?F ?W) = Inr (s2, l2)"
    unfolding demo_train_init by blast
  have c2: "(\<forall>st \<in> set (train_states ?F ?T [0 ..< 3] (?W, train_init ?F ?W)). val_mAP st \<le> 0)
             \<or> (\<forall>k. save_result ?F k \<noteq> Saved)"
    by (simp add: demo_env_def)
  from train_without_checkpoint_raises [OF j absent demo_epochs loop2 c2] obtain e2 s'' where
    r2: "train ?F ?T ?W = Inl (e2, s'')"
    and rep2: "reported (out s'') = reported (out ?W)" by blast
  have "(case train ?F ?T ?W of Inl (x, s) \<Rightarrow> x = UnpicklingError demo_path | Inr s \<Rightarrow> False)"
    by code_simp
  with r2 have "e2 = UnpicklingError demo_path" by simp
  with r2 rep2 e have b: "\<exists>s'. train ?F ?T ?W = Inl (UnpicklingError demo_path, s')
      \<and> reported (out s') = []" by simp
  from a b show ?thesis by blast
qed

text \<open>
  C10, as stated, fails when a checkpoint of an earlier run is at the path: with three
  epochs of validation score 0 nothing is saved, the stale file is loaded, and \<open>train()\<close>
  returns and prints a test result.
\<close>

theorem stale_checkpoint_counterexample:
  "(case train (demo_env (\<lambda>w. 0) (\<lambda>e. Saved)) (demo_task (PyStr ''w'') 3)
          (demo_world [demo_path \<mapsto> Checkpoint 7]) of
      Inl x \<Rightarrow> False
    | Inr s' \<Rightarrow> reported (out s') = [0] \<and> saves_of (out s') = [] \<and> model s' = 7)"
  by code_simp


lemma improves_0 [simp]: "improves h (v # ms) 0 \<longleftrightarrow> h < v"
  by (simp add: improves_def)

lemma improves_Suc [simp]:
  "improves h (v # ms) (Suc k) \<longleftrightarrow> improves (if v > h then v else h) ms k"
  by (auto simp: improves_def)















end
